theory Spec2Isabelle
  imports Complex_Main
begin

section \<open>The data model of the arena (types of \<^verbatim>\<open>@/types\<close>)\<close>

text \<open>
  JavaScript numbers are modelled as real numbers: the values that reach the simulation
  core come from JSON, from integer clocks and from arithmetic on them, so they are finite;
  signed zeros and NaN are outside the model, and so is rounding error, except in the
  geometry of a move, whose arithmetic is rounded explicitly. An optional field
  (\<^verbatim>\<open>f?: T\<close>) is an \<open>option\<close>. Record fields keep the source's names; where two
  interfaces share a field name (\<^verbatim>\<open>id\<close>, \<^verbatim>\<open>position\<close>, \<^verbatim>\<open>x\<close>, ...) the field gets a short
  prefix naming its interface. The constant tag fields \<^verbatim>\<open>type: 'object'\<close> and
  \<^verbatim>\<open>type: 'obstacle'\<close> carry no information and are left out.
\<close>

record Vector2 =
  vx :: real
  vy :: real

record BoardSize =
  width :: real
  height :: real

record Eyesight =
  radius :: real
  angle :: real

record AvatarSettings =
  provider :: string
  model :: string
  apiKey :: string
  rateLimit :: real
  eyesight :: Eyesight
  systemPrompt :: string

record AvatarState =
  av_id :: string
  av_position :: Vector2
  orientation :: real
  settings :: AvatarSettings
  color :: real
  currentAction :: "string option"
  conversationTarget :: "string option"
  lastActionTime :: "real option"
  thought :: "string option"
  nextDecisionTime :: "real option"

record ArenaObject =
  obj_id :: string
  obj_position :: Vector2
  description :: string

record Obstacle =
  obs_id :: string
  obs_position :: Vector2
  obs_size :: Vector2

record ConversationMessage =
  msg_avatarId :: string
  msg_text :: string
  msg_timestamp :: real

record Conversation =
  conv_id :: string
  participants :: "string \<times> string"
  messages :: "ConversationMessage list"
  startTime :: real
  endTime :: "real option"

datatype SimulationMode = TurnBased | TimeBased

record SimulationSettings =
  mode :: SimulationMode
  boardSize :: BoardSize
  turnDuration :: "real option"
  timeScale :: "real option"

text \<open>
  A partial update of the simulation settings (\<^verbatim>\<open>Partial<AppState['simulation']>\<close>) and of
  an avatar's settings (\<^verbatim>\<open>Partial<AvatarSettings>\<close>, with a partial eyesight): a field that
  is \<open>None\<close> is absent from the object that is spread over the old settings.
\<close>

record SimulationSettingsUpdate =
  upd_mode :: "SimulationMode option"
  upd_boardSize :: "BoardSize option"
  upd_turnDuration :: "real option"
  upd_timeScale :: "real option"

record EyesightUpdate =
  upd_radius :: "real option"
  upd_angle :: "real option"

record AvatarSettingsUpdate =
  upd_provider :: "string option"
  upd_model :: "string option"
  upd_apiKey :: "string option"
  upd_rateLimit :: "real option"
  upd_eyesight :: "EyesightUpdate option"
  upd_systemPrompt :: "string option"

datatype LogLevel = info | warning | error | debug

text \<open>
  A log message is a template literal. Its pieces are kept apart instead of being rendered
  into one string: literal text, a number printed by \<^verbatim>\<open>${n}\<close>, a number printed by
  \<^verbatim>\<open>n.toFixed(0)\<close>, and the two \<^verbatim>\<open>JSON.stringify\<close> arguments.
\<close>

datatype msg_part =
    Txt string
  | Num real
  | Fixed0 real
  | JsonSettings SimulationSettingsUpdate
  | JsonKeys "string list"

record SimulationLogEntry =
  timestamp :: real
  message :: "msg_part list"
  level :: LogLevel
  log_avatarId :: "string option"

record AppState =
  avatars :: "AvatarState list"
  objects :: "ArenaObject list"
  obstacles :: "Obstacle list"
  conversations :: "Conversation list"
  simulation :: SimulationSettings
  isRunning :: bool
  simulationLogs :: "SimulationLogEntry list"

record DecisionParameters =
  p_angle :: "real option"
  p_distance :: "real option"
  targetId :: "string option"
  p_message :: "string option"
  duration :: "real option"

record LLMDecision =
  action :: string
  parameters :: "DecisionParameters option"
  d_thought :: "string option"

section \<open>JavaScript primitives used by the core\<close>

text \<open>Truthiness of an optional string and of an optional number.\<close>

definition truthy :: "string option \<Rightarrow> bool" where
  "truthy s = (case s of None \<Rightarrow> False | Some t \<Rightarrow> t \<noteq> [])"

definition truthy_num :: "real option \<Rightarrow> bool" where
  "truthy_num n = (case n of None \<Rightarrow> False | Some r \<Rightarrow> r \<noteq> 0)"

text \<open>\<^verbatim>\<open>${s}\<close> for an optional string: an absent value prints as \<^verbatim>\<open>undefined\<close>.\<close>

definition tmpl :: "string option \<Rightarrow> string" where
  "tmpl s = (case s of None \<Rightarrow> ''undefined'' | Some t \<Rightarrow> t)"

text \<open>\<^verbatim>\<open>Math.round\<close>: the nearest integer, a tie going up.\<close>

definition js_round :: "real \<Rightarrow> real" where
  "js_round r = of_int \<lfloor>r + 1 / 2\<rfloor>"

text \<open>\<^verbatim>\<open>a % b\<close>: the remainder of the division truncated towards zero (sign of \<open>a\<close>).\<close>

definition js_rem :: "real \<Rightarrow> real \<Rightarrow> real" where
  "js_rem a b = a - b * (if 0 \<le> a / b then of_int \<lfloor>a / b\<rfloor> else of_int \<lceil>a / b\<rceil>)"

text \<open>\<^verbatim>\<open>Math.atan2(dy, dx)\<close>, the angle of the vector \<open>(dx, dy)\<close> in \<open>(-\<pi>, \<pi>]\<close>.\<close>

definition atan2 :: "real \<Rightarrow> real \<Rightarrow> real" where
  "atan2 dy dx =
     (if 0 < dx then arctan (dy / dx)
      else if dx < 0 then (if 0 \<le> dy then arctan (dy / dx) + pi else arctan (dy / dx) - pi)
      else if 0 < dy then pi / 2
      else if dy < 0 then - pi / 2
      else 0)"

text \<open>\<^verbatim>\<open>xs.slice(-n)\<close>: the last \<open>n\<close> elements.\<close>

definition slice_last :: "nat \<Rightarrow> 'a list \<Rightarrow> 'a list" where
  "slice_last n xs = drop (length xs - n) xs"

text \<open>\<^verbatim>\<open>xs.findIndex(p)\<close>, with \<open>None\<close> for \<open>-1\<close>.\<close>

fun findIndex :: "('a \<Rightarrow> bool) \<Rightarrow> 'a list \<Rightarrow> nat option" where
  "findIndex p [] = None"
| "findIndex p (a # as) =
     (if p a then Some 0 else (case findIndex p as of None \<Rightarrow> None | Some i \<Rightarrow> Some (Suc i)))"

text \<open>\<^verbatim>\<open>c.participants.includes(p)\<close> on the two-element tuple.\<close>

definition includesId :: "string \<times> string \<Rightarrow> string \<Rightarrow> bool" where
  "includesId ps p = (fst ps = p \<or> snd ps = p)"

subsection \<open>Identifiers\<close>

text \<open>
  \<^verbatim>\<open>generateId(prefix)\<close> returns \<^verbatim>\<open>`${prefix}-${nextIdCounter++}`\<close>. The module variable
  \<^verbatim>\<open>nextIdCounter\<close> is passed explicitly; every function that generates identifiers
  returns the counter it leaves behind.
\<close>

definition digit_char :: "nat \<Rightarrow> char" where
  "digit_char d = ''0123456789'' ! d"

fun show_nat :: "nat \<Rightarrow> string" where
  "show_nat n = (if n < 10 then [digit_char n] else show_nat (n div 10) @ [digit_char (n mod 10)])"

declare show_nat.simps [simp del]

definition generateId :: "string \<Rightarrow> nat \<Rightarrow> string" where
  "generateId prefix counter = prefix @ ''-'' @ show_nat counter"

text \<open>\<^verbatim>\<open>generateColor(index)\<close>: the hue of the colour; saturation and lightness are fixed.\<close>

definition generateColor :: "nat \<Rightarrow> real" where
  "generateColor index = js_rem (real index * 137.508) 360"

section \<open>Geometry helpers\<close>

definition distance :: "Vector2 \<Rightarrow> Vector2 \<Rightarrow> real" where
  "distance p1 p2 =
     (let dx = vx p1 - vx p2; dy = vy p1 - vy p2 in sqrt (dx * dx + dy * dy))"

definition isPointInObstacle :: "Vector2 \<Rightarrow> Obstacle \<Rightarrow> bool" where
  "isPointInObstacle point obstacle =
     (vx point \<ge> vx (obs_position obstacle) \<and>
      vx point \<le> vx (obs_position obstacle) + vx (obs_size obstacle) \<and>
      vy point \<ge> vy (obs_position obstacle) \<and>
      vy point \<le> vy (obs_position obstacle) + vy (obs_size obstacle))"

definition isPointInBounds :: "Vector2 \<Rightarrow> BoardSize \<Rightarrow> bool" where
  "isPointInBounds point bs =
     (vx point \<ge> 0 \<and> vx point \<le> width bs \<and> vy point \<ge> 0 \<and> vy point \<le> height bs)"


section \<open>The event log\<close>

text \<open>
  \<^verbatim>\<open>addLog\<close> enqueues a state update of its own that touches only \<^verbatim>\<open>simulationLogs\<close>:
  it keeps the last 100 entries and appends the new one. The console output is not
  modelled. An operation is given one clock reading \<open>now\<close> for all its \<^verbatim>\<open>Date.now()\<close>
  calls. The \<^verbatim>\<open>addLog\<close> calls an operation makes are collected in call order and applied to
  the state the operation produces.
\<close>

type_synonym log_call = "msg_part list \<times> LogLevel \<times> string option"

definition addLog :: "real \<Rightarrow> log_call \<Rightarrow> AppState \<Rightarrow> AppState" where
  "addLog now call prev =
     prev\<lparr>simulationLogs := slice_last 100 (simulationLogs prev) @
       [\<lparr>timestamp = now, message = fst call, level = fst (snd call),
         log_avatarId = snd (snd call)\<rparr>]\<rparr>"

fun addLogs :: "real \<Rightarrow> log_call list \<Rightarrow> AppState \<Rightarrow> AppState" where
  "addLogs now [] s = s"
| "addLogs now (c # cs) s = addLogs now cs (addLog now c s)"

section \<open>The action resolver: \<^verbatim>\<open>executeDecision\<close>\<close>

text \<open>\<^verbatim>\<open>params?.field\<close> on the optional parameter object.\<close>

definition param :: "(DecisionParameters \<Rightarrow> 'a option) \<Rightarrow> DecisionParameters option \<Rightarrow> 'a option" where
  "param field ps = (case ps of None \<Rightarrow> None | Some p \<Rightarrow> field p)"

text \<open>\<^verbatim>\<open>(finalThought ? finalThought + " " : "") + note\<close>\<close>

definition annotate :: "string option \<Rightarrow> string \<Rightarrow> string option" where
  "annotate ft note = Some ((if truthy ft then tmpl ft @ '' '' else []) @ note)"

subsection \<open>Before the state update: the interaction oracle\<close>

text \<open>
  The first part of \<^verbatim>\<open>executeDecision\<close> reads \<^verbatim>\<open>stateRef.current\<close> (here \<open>cur\<close>) and, for
  \<^verbatim>\<open>interact_object\<close>, awaits \<^verbatim>\<open>processObjectInteraction\<close>. The outcome of that call is the
  parameter \<open>oracle\<close>: \<open>Inr reaction\<close> when it returns, \<open>Inl msg\<close> when it throws an error
  with that message. It leaves the locals \<^verbatim>\<open>updateAction\<close>, \<^verbatim>\<open>updateParams\<close> and
  \<^verbatim>\<open>finalThought\<close>.
\<close>

record PreResolved =
  pre_action :: string
  pre_params :: "DecisionParameters option"
  pre_thought :: "string option"
  pre_logs :: "log_call list"

definition initialThought :: "LLMDecision \<Rightarrow> string option" where
  "initialThought decision =
     (if truthy (d_thought decision) then d_thought decision
      else if action decision = ''think'' then Some ''Thinking...'' else None)"

definition decidedLog :: "string \<Rightarrow> LLMDecision \<Rightarrow> log_call" where
  "decidedLog avatarId decision =
     ([Txt ''Avatar '', Txt avatarId, Txt '' decided to '', Txt (action decision), Txt ''.''] @
      (if truthy (initialThought decision)
       then [Txt '' Thought: '', Txt (tmpl (initialThought decision))] else []),
      debug, Some avatarId)"

text \<open>The double quote character of the interaction note.\<close>

definition dquote :: string where
  "dquote = [CHR 0x22]"

definition shortIdle :: "DecisionParameters option" where
  "shortIdle = Some \<lparr>p_angle = None, p_distance = None, targetId = None, p_message = None,
     duration = Some 500\<rparr>"

definition resolveInteraction ::
  "(string + string) \<Rightarrow> string \<Rightarrow> LLMDecision \<Rightarrow> AppState \<Rightarrow> PreResolved" where
  "resolveInteraction oracle avatarId decision cur =
     (let finalThought = initialThought decision;
          log0 = decidedLog avatarId decision
      in
      if action decision = ''interact_object'' then
        (let targetObjectId = param targetId (parameters decision);
             targetObject = find (\<lambda>ob. Some (obj_id ob) = targetObjectId) (objects cur);
             currentAvatar = find (\<lambda>a. av_id a = avatarId) (avatars cur)
         in
         case (targetObject, currentAvatar) of
           (Some ob, Some av) \<Rightarrow>
             (case oracle of
                Inr reaction \<Rightarrow>
                  \<lparr>pre_action = ''idle'', pre_params = shortIdle,
                   pre_thought = Some (''Interacted with '' @ tmpl targetObjectId @
                     ''. Note: '' @ dquote @ description ob @ dquote @ ''. Reaction: '' @ reaction),
                   pre_logs = [log0,
                     ([Txt ''Interacting with object '', Txt (tmpl targetObjectId), Txt '': '',
                       Txt (description ob)], info, Some avatarId),
                     ([Txt ''Interaction reaction: '', Txt reaction], debug, Some avatarId)]\<rparr>
              | Inl msg \<Rightarrow>
                  \<lparr>pre_action = ''idle'', pre_params = shortIdle,
                   pre_thought = Some (''Interacted with '' @ tmpl targetObjectId @
                     ''. Failed to process reaction: '' @ msg),
                   pre_logs = [log0,
                     ([Txt ''Interacting with object '', Txt (tmpl targetObjectId), Txt '': '',
                       Txt (description ob)], info, Some avatarId),
                     ([Txt ''Error during object interaction flow for '', Txt avatarId,
                       Txt '': '', Txt msg], error, Some avatarId)]\<rparr>)
         | _ \<Rightarrow>
             \<lparr>pre_action = ''idle'', pre_params = shortIdle,
              pre_thought = annotate finalThought
                (''(Target object '' @ tmpl targetObjectId @ '' not found)''),
              pre_logs = [log0,
                ([Txt ''Target object '', Txt (tmpl targetObjectId),
                  Txt '' not found for interaction.''], warning, Some avatarId)]\<rparr>)
      else if action decision = ''think'' then
        \<lparr>pre_action = ''thinking'', pre_params = parameters decision,
         pre_thought = finalThought,
         pre_logs = [log0,
           ([Txt ''Avatar '', Txt avatarId, Txt '' is thinking. Thought: '',
             Txt (tmpl finalThought)], info, Some avatarId)]\<rparr>
      else
        \<lparr>pre_action = action decision, pre_params = parameters decision,
         pre_thought = finalThought, pre_logs = [log0]\<rparr>)"

subsection \<open>The state update: the \<^verbatim>\<open>switch\<close> over the action\<close>

text \<open>
  The locals of the updater passed to \<^verbatim>\<open>setState\<close>, as the \<^verbatim>\<open>switch\<close> leaves them, with the
  log calls made on the way and the identifier counter.
\<close>

record Resolved =
  updateAction :: string
  finalThought :: "string option"
  newPosition :: Vector2
  newOrientation :: real
  newConversationTarget :: "string option"
  nextAvatars :: "AvatarState list"
  nextConversations :: "Conversation list"
  logs :: "log_call list"
  counter :: nat

definition initialLocals ::
  "AppState \<Rightarrow> AvatarState \<Rightarrow> string \<Rightarrow> string option \<Rightarrow> nat \<Rightarrow> Resolved" where
  "initialLocals prev currentAvatar act th c =
     \<lparr>updateAction = act, finalThought = th, newPosition = av_position currentAvatar,
      newOrientation = orientation currentAvatar,
      newConversationTarget = conversationTarget currentAvatar,
      nextAvatars = avatars prev, nextConversations = conversations prev,
      logs = [], counter = c\<rparr>"

definition turnCase ::
  "string \<Rightarrow> AppState \<Rightarrow> AvatarState \<Rightarrow> DecisionParameters option \<Rightarrow> string option \<Rightarrow> nat
   \<Rightarrow> Resolved" where
  "turnCase avatarId prev currentAvatar updateParams th c =
     (let turnAngle = (case param p_angle updateParams of None \<Rightarrow> 0 | Some a \<Rightarrow> a);
          snappedAngle = js_round (turnAngle / 30) * 30;
          newOri = js_rem (orientation currentAvatar + snappedAngle + 360) 360
      in (initialLocals prev currentAvatar ''turn'' th c)
           \<lparr>newOrientation := newOri,
            logs := [([Txt ''Turning by '', Num snappedAngle, Txt '' degrees to '',
                       Fixed0 newOri], info, Some avatarId)]\<rparr>)"

text \<open>
  Double-precision arithmetic, for the geometry of a move. A move along an axis can land
  exactly on an edge of the board or at exactly a radius from an obstacle, and there the
  rounding of the arithmetic decides the collision test: \<^verbatim>\<open>Math.cos\<close> of 270 degrees in
  radians is about \<open>-1.8e-16\<close>, not 0. So the move case does not compute in the reals. Every
  arithmetic operation and \<^verbatim>\<open>Math.sqrt\<close> yield the rounding \<open>fl\<close> of their exact result,
  \<^verbatim>\<open>Math.PI\<close> is the rounding of \<open>\<pi>\<close>, and \<^verbatim>\<open>Math.cos\<close> and \<^verbatim>\<open>Math.sin\<close> are the functions
  \<open>fcos\<close> and \<open>fsin\<close> of the platform. The three functions are parameters of the resolver;
  nothing is assumed about them. Comparisons, \<^verbatim>\<open>Math.max\<close> and \<^verbatim>\<open>Math.min\<close> are exact.
\<close>

record Float64 =
  fl :: "real \<Rightarrow> real"
  fcos :: "real \<Rightarrow> real"
  fsin :: "real \<Rightarrow> real"

text \<open>\<^verbatim>\<open>distance\<close> as the move case executes it.\<close>

definition distance64 :: "Float64 \<Rightarrow> Vector2 \<Rightarrow> Vector2 \<Rightarrow> real" where
  "distance64 fp p1 p2 =
     (let dx = fl fp (vx p1 - vx p2); dy = fl fp (vy p1 - vy p2)
      in fl fp (sqrt (fl fp (fl fp (dx * dx) + fl fp (dy * dy)))))"

text \<open>The two collision loops of \<^verbatim>\<open>move\<close> stop at the first hit (\<^verbatim>\<open>break\<close>).\<close>

definition hitsObstacle :: "Float64 \<Rightarrow> Vector2 \<Rightarrow> Obstacle \<Rightarrow> bool" where
  "hitsObstacle fp potentialPosition obs =
     (let avatarRadius = 8;
          closestX = max (vx (obs_position obs))
                       (min (vx potentialPosition)
                            (fl fp (vx (obs_position obs) + vx (obs_size obs))));
          closestY = max (vy (obs_position obs))
                       (min (vy potentialPosition)
                            (fl fp (vy (obs_position obs) + vy (obs_size obs))));
          distToObstacleEdge = distance64 fp potentialPosition \<lparr>vx = closestX, vy = closestY\<rparr>
      in distToObstacleEdge < avatarRadius)"

definition hitsAvatar :: "Float64 \<Rightarrow> string \<Rightarrow> Vector2 \<Rightarrow> AvatarState \<Rightarrow> bool" where
  "hitsAvatar fp avatarId potentialPosition otherAvatar =
     (av_id otherAvatar \<noteq> avatarId \<and>
      distance64 fp potentialPosition (av_position otherAvatar) < 8 + 8)"

definition potentialPositionOf ::
  "Float64 \<Rightarrow> AvatarState \<Rightarrow> DecisionParameters option \<Rightarrow> Vector2" where
  "potentialPositionOf fp currentAvatar updateParams =
     (let moveDistance = (case param p_distance updateParams of None \<Rightarrow> 0 | Some d \<Rightarrow> d);
          clampedDistance = max (-15) (min 15 moveDistance);
          moveAngleRad = fl fp (orientation currentAvatar * fl fp (fl fp pi / 180));
          dx = fl fp (clampedDistance * fcos fp moveAngleRad);
          dy = fl fp (clampedDistance * fsin fp moveAngleRad)
      in \<lparr>vx = fl fp (vx (av_position currentAvatar) + dx),
          vy = fl fp (vy (av_position currentAvatar) + dy)\<rparr>)"

definition moveCase ::
  "Float64 \<Rightarrow> string \<Rightarrow> AppState \<Rightarrow> AvatarState \<Rightarrow> DecisionParameters option \<Rightarrow> string option \<Rightarrow> nat
   \<Rightarrow> Resolved" where
  "moveCase fp avatarId prev currentAvatar updateParams th c =
     (let moveDistance = (case param p_distance updateParams of None \<Rightarrow> 0 | Some d \<Rightarrow> d);
          clampedDistance = max (-15) (min 15 moveDistance);
          potentialPosition = potentialPositionOf fp currentAvatar updateParams;
          base = initialLocals prev currentAvatar ''move'' th c;
          blocked = annotate th ''(Movement blocked)''
      in
      if \<not> isPointInBounds potentialPosition (boardSize (simulation prev)) then
        base\<lparr>finalThought := blocked,
             logs := [([Txt ''Movement blocked by boundary.''], info, Some avatarId)]\<rparr>
      else
        (case find (hitsObstacle fp potentialPosition) (obstacles prev) of
           Some obs \<Rightarrow>
             base\<lparr>finalThought := blocked,
                  logs := [([Txt ''Movement blocked by obstacle '', Txt (obs_id obs), Txt ''.''],
                            info, Some avatarId)]\<rparr>
         | None \<Rightarrow>
             (case find (hitsAvatar fp avatarId potentialPosition) (avatars prev) of
                Some otherAvatar \<Rightarrow>
                  base\<lparr>finalThought := blocked,
                       logs := [([Txt ''Movement blocked by avatar '', Txt (av_id otherAvatar),
                                  Txt ''.''], info, Some avatarId)]\<rparr>
              | None \<Rightarrow>
                  base\<lparr>newPosition := potentialPosition,
                       logs := [([Txt ''Moving '',
                                  Txt (if clampedDistance > 0 then ''forward'' else ''backward''),
                                  Txt '' '', Fixed0 \<bar>clampedDistance\<bar>, Txt '' units.''],
                                 info, Some avatarId)]\<rparr>)))"


text \<open>The test that selects the active conversation of a pair, \<^verbatim>\<open>!c.endTime\<close> included.\<close>

definition activeBetween :: "string \<Rightarrow> string \<Rightarrow> Conversation \<Rightarrow> bool" where
  "activeBetween a b c =
     (includesId (participants c) a \<and> includesId (participants c) b \<and> \<not> truthy_num (endTime c))"

definition initiateCase ::
  "real \<Rightarrow> string \<Rightarrow> AppState \<Rightarrow> AvatarState \<Rightarrow> DecisionParameters option \<Rightarrow> string option
   \<Rightarrow> nat \<Rightarrow> Resolved" where
  "initiateCase now avatarId prev currentAvatar updateParams th c =
     (let targetAvatarId = param targetId updateParams;
          message = param p_message updateParams;
          base = initialLocals prev currentAvatar ''initiate_conversation'' th c
      in
      if truthy targetAvatarId \<and> truthy message then
        (if truthy (conversationTarget currentAvatar) then
           base\<lparr>updateAction := ''idle'',
                finalThought := annotate th ''(Tried to initiate conversation while already in one)'',
                logs := [([Txt ''Tried to initiate conversation while already in one with '',
                           Txt (tmpl (conversationTarget currentAvatar)), Txt ''.''],
                          warning, Some avatarId)]\<rparr>
         else
           (case find (\<lambda>a. Some (av_id a) = targetAvatarId) (avatars prev) of
              Some targetAvatar \<Rightarrow>
                (if targetAvatarId \<noteq> Some avatarId then
                   (if truthy (conversationTarget targetAvatar) then
                      base\<lparr>updateAction := ''idle'',
                           finalThought := annotate th
                             (''(Target '' @ tmpl targetAvatarId @ '' busy)''),
                           logs := [([Txt ''Target avatar '', Txt (tmpl targetAvatarId),
                                      Txt '' is already in a conversation.''],
                                     warning, Some avatarId)]\<rparr>
                    else
                      (let tid = tmpl targetAvatarId;
                           newConv = \<lparr>conv_id = generateId ''conversation'' c,
                                      participants = (avatarId, tid),
                                      messages = [\<lparr>msg_avatarId = avatarId,
                                                   msg_text = tmpl message,
                                                   msg_timestamp = now\<rparr>],
                                      startTime = now, endTime = None\<rparr>
                       in base\<lparr>updateAction := ''conversing'',
                               newConversationTarget := targetAvatarId,
                               nextConversations := conversations prev @ [newConv],
                               nextAvatars := map (\<lambda>a.
                                  if av_id a = avatarId
                                  then a\<lparr>conversationTarget := Some tid,
                                         currentAction := Some ''conversing''\<rparr>
                                  else if av_id a = tid
                                  then a\<lparr>conversationTarget := Some avatarId,
                                         currentAction := Some ''conversing''\<rparr>
                                  else a) (avatars prev),
                               logs := [([Txt ''Initiating conversation with '', Txt tid,
                                          Txt '': '', Txt dquote, Txt (tmpl message), Txt dquote],
                                         info, Some avatarId)],
                               counter := Suc c\<rparr>))
                 else
                   base\<lparr>updateAction := ''idle'',
                        finalThought := annotate th
                          (''(Target avatar '' @ tmpl targetAvatarId @ '' invalid)''),
                        logs := [([Txt ''Target avatar '', Txt (tmpl targetAvatarId),
                                   Txt '' not found or is self.''], warning, Some avatarId)]\<rparr>)
            | None \<Rightarrow>
                base\<lparr>updateAction := ''idle'',
                     finalThought := annotate th
                       (''(Target avatar '' @ tmpl targetAvatarId @ '' invalid)''),
                     logs := [([Txt ''Target avatar '', Txt (tmpl targetAvatarId),
                                Txt '' not found or is self.''], warning, Some avatarId)]\<rparr>))
      else
        base\<lparr>updateAction := ''idle'',
             finalThought := annotate th ''(Missing parameters for initiate_conversation)'',
             logs := [([Txt ''Missing targetId or message for initiating conversation.''],
                       warning, Some avatarId)]\<rparr>)"

definition continueCase ::
  "real \<Rightarrow> string \<Rightarrow> AppState \<Rightarrow> AvatarState \<Rightarrow> DecisionParameters option \<Rightarrow> string option
   \<Rightarrow> nat \<Rightarrow> Resolved" where
  "continueCase now avatarId prev currentAvatar updateParams th c =
     (let continueTargetId = param targetId updateParams;
          continueMessage = param p_message updateParams;
          base = initialLocals prev currentAvatar ''continue_conversation'' th c
      in
      if truthy continueTargetId \<and> truthy continueMessage \<and>
         conversationTarget currentAvatar = continueTargetId then
        (case findIndex (activeBetween avatarId (tmpl continueTargetId)) (conversations prev) of
           Some convIndex \<Rightarrow>
             (let newMessage = \<lparr>msg_avatarId = avatarId, msg_text = tmpl continueMessage,
                                msg_timestamp = now\<rparr>;
                  conv = conversations prev ! convIndex
              in base\<lparr>updateAction := ''conversing'',
                      nextConversations := (conversations prev)
                        [convIndex := conv\<lparr>messages := slice_last 19 (messages conv) @ [newMessage]\<rparr>],
                      logs := [([Txt ''Continuing conversation with '', Txt (tmpl continueTargetId),
                                 Txt '': '', Txt dquote, Txt (tmpl continueMessage), Txt dquote],
                                info, Some avatarId)]\<rparr>)
         | None \<Rightarrow>
             base\<lparr>updateAction := ''idle'',
                  newConversationTarget := None,
                  finalThought := annotate th
                    (''(No active conversation with '' @ tmpl continueTargetId @ '')''),
                  logs := [([Txt ''No active conversation found with '',
                             Txt (tmpl continueTargetId), Txt '' to continue.''],
                            warning, Some avatarId)]\<rparr>)
      else
        base\<lparr>updateAction := ''idle'',
             newConversationTarget := None,
             finalThought := annotate th ''(Invalid parameters or state for continue_conversation)'',
             logs := [([Txt ''Invalid target or message for continuing conversation, or not in conversation with '',
                        Txt (tmpl continueTargetId), Txt ''.''], warning, Some avatarId)]\<rparr>)"

definition disengageCase ::
  "real \<Rightarrow> string \<Rightarrow> AppState \<Rightarrow> AvatarState \<Rightarrow> DecisionParameters option \<Rightarrow> string option
   \<Rightarrow> nat \<Rightarrow> Resolved" where
  "disengageCase now avatarId prev currentAvatar updateParams th c =
     (let disengageTargetId = param targetId updateParams;
          base = initialLocals prev currentAvatar ''disengage_conversation'' th c
      in
      if truthy disengageTargetId \<and> conversationTarget currentAvatar = disengageTargetId then
        (let tid = tmpl disengageTargetId;
             log1 = ([Txt ''Disengaging conversation with '', Txt tid, Txt ''.''],
                     info, Some avatarId)
         in
         case findIndex (activeBetween avatarId tid) (conversations prev) of
           Some convIndex \<Rightarrow>
             base\<lparr>updateAction := ''idle'',
                  newConversationTarget := None,
                  nextConversations := (conversations prev)
                    [convIndex := (conversations prev ! convIndex)\<lparr>endTime := Some now\<rparr>],
                  nextAvatars := map (\<lambda>a.
                     if av_id a = avatarId \<or> av_id a = tid
                     then a\<lparr>currentAction := None, conversationTarget := None\<rparr>
                     else a) (avatars prev),
                  logs := [log1]\<rparr>
         | None \<Rightarrow>
             base\<lparr>updateAction := ''idle'',
                  newConversationTarget := None,
                  logs := [log1,
                    ([Txt ''Conversation with '', Txt tid, Txt '' already ended?''],
                     warning, Some avatarId)]\<rparr>)
      else
        base\<lparr>updateAction :=
               (if \<not> truthy (conversationTarget currentAvatar) then ''idle''
                else ''disengage_conversation''),
             finalThought := annotate th
               ''(Cannot disengage, not in conversation or missing target)'',
             logs := [([Txt ''Not in conversation with '', Txt (tmpl disengageTargetId),
                        Txt '' to disengage, or no target specified.''],
                       warning, Some avatarId)]\<rparr>)"

definition resolveAction ::
  "Float64 \<Rightarrow> real \<Rightarrow> string \<Rightarrow> AppState \<Rightarrow> AvatarState \<Rightarrow> string \<Rightarrow> DecisionParameters option
   \<Rightarrow> string option \<Rightarrow> nat \<Rightarrow> Resolved" where
  "resolveAction fp now avatarId prev currentAvatar act updateParams th c =
     (if act = ''turn'' then turnCase avatarId prev currentAvatar updateParams th c
      else if act = ''move'' then moveCase fp avatarId prev currentAvatar updateParams th c
      else if act = ''interact_object'' then initialLocals prev currentAvatar ''idle'' th c
      else if act = ''initiate_conversation''
        then initiateCase now avatarId prev currentAvatar updateParams th c
      else if act = ''continue_conversation''
        then continueCase now avatarId prev currentAvatar updateParams th c
      else if act = ''disengage_conversation''
        then disengageCase now avatarId prev currentAvatar updateParams th c
      else if act = ''think'' then initialLocals prev currentAvatar ''thinking'' th c
      else initialLocals prev currentAvatar ''idle'' th c)"

subsection \<open>The state update: timer and stored action\<close>

definition clampedDelayOf :: "AvatarState \<Rightarrow> DecisionParameters option \<Rightarrow> real" where
  "clampedDelayOf currentAvatar updateParams =
     (let decisionDelay = (case param duration updateParams of
                             Some d \<Rightarrow> d | None \<Rightarrow> rateLimit (settings currentAvatar))
      in min 10000 (max 100 decisionDelay))"

definition finalActionString :: "string \<Rightarrow> string option" where
  "finalActionString act = (if act = ''idle'' \<or> act = ''thinking'' then None else Some act)"

definition storeAvatar ::
  "real \<Rightarrow> AppState \<Rightarrow> AvatarState \<Rightarrow> DecisionParameters option \<Rightarrow> Resolved \<Rightarrow> AvatarState
   \<Rightarrow> AvatarState" where
  "storeAvatar now prev currentAvatar updateParams r avatar =
     avatar\<lparr>av_position := newPosition r,
            orientation := newOrientation r,
            currentAction := finalActionString (updateAction r),
            conversationTarget := newConversationTarget r,
            thought := finalThought r,
            lastActionTime := Some (if mode (simulation prev) = TimeBased then now
               else (case lastActionTime avatar of None \<Rightarrow> 0 | Some t \<Rightarrow> t) + 1),
            nextDecisionTime := Some (now + clampedDelayOf currentAvatar updateParams)\<rparr>"

text \<open>
  The updater of \<^verbatim>\<open>setState\<close>: the new state, the log calls it makes and the counter. An
  avatar that is no longer in the list leaves the state as it is.
\<close>

definition applyDecision ::
  "Float64 \<Rightarrow> real \<Rightarrow> string \<Rightarrow> string \<Rightarrow> DecisionParameters option \<Rightarrow> string option \<Rightarrow> nat \<Rightarrow> AppState
   \<Rightarrow> AppState \<times> log_call list \<times> nat" where
  "applyDecision fp now avatarId act updateParams th c prev =
     (case findIndex (\<lambda>a. av_id a = avatarId) (avatars prev) of
        None \<Rightarrow> (prev, [], c)
      | Some avatarIndex \<Rightarrow>
          (let currentAvatar = avatars prev ! avatarIndex;
               r = resolveAction fp now avatarId prev currentAvatar act updateParams th c;
               stored = (nextAvatars r)
                 [avatarIndex := storeAvatar now prev currentAvatar updateParams r
                                   (nextAvatars r ! avatarIndex)]
           in (prev\<lparr>avatars := stored, conversations := nextConversations r\<rparr>,
               logs r, counter r)))"

text \<open>
  \<^verbatim>\<open>executeDecision\<close>: \<open>fp\<close> is the double-precision arithmetic of the platform, \<open>cur\<close>
  the state the first part reads, \<open>prev\<close> the latest state, to which the update is applied
  when the oracle has answered. Its result is the state after the update and all log
  entries, and the identifier counter.
\<close>

definition executeDecision ::
  "Float64 \<Rightarrow> real \<Rightarrow> (string + string) \<Rightarrow> string \<Rightarrow> LLMDecision \<Rightarrow> AppState \<Rightarrow> nat \<Rightarrow> AppState
   \<Rightarrow> AppState \<times> nat" where
  "executeDecision fp now oracle avatarId decision cur c prev =
     (let pre = resolveInteraction oracle avatarId decision cur;
          (s, ls, c') = applyDecision fp now avatarId (pre_action pre) (pre_params pre)
                          (pre_thought pre) c prev
      in (addLogs now (pre_logs pre @ ls) s, c'))"


section \<open>World initialisation\<close>

text \<open>The default prompt, line by line; every line of the template literal ends in a newline.\<close>

definition nl :: string where
  "nl = [CHR 0x0A]"

definition DEFAULT_SYSTEM_PROMPT :: string where
  "DEFAULT_SYSTEM_PROMPT =
     ''You are an AI assistant simulating a character in a virtual 2D top-down world.'' @ nl @
     ''Your Personality: [Choose one or define your own: curious explorer, shy observer, goal-oriented taskmaster, friendly socializer, cautious wanderer]'' @ nl @
     ''Your Goal: [Choose one or define your own: map the area, find a specific object, talk to every avatar, avoid interaction, build something (conceptual)]'' @ nl @
     nl @
     ''World Details:'' @ nl @
     ''- You perceive the world through simulated eyesight (a 180-degree semicircle in front of you).'' @ nl @
     ''- Coordinates are (x, y) with (0,0) at the top-left.'' @ nl @
     ''- Orientation is in degrees (0-359), where 0 is right, 90 is down, 180 is left, 270 is up.'' @ nl @
     ''- You can see avatars, objects (with descriptions), and obstacles (like walls). Distances are provided.'' @ nl @
     nl @
     ''Available Actions:'' @ nl @
     ''- turn: Rotate yourself by a relative angle (angle: e.g., 30 for right, -30 for left). Use 30 degree increments.'' @ nl @
     ''- move: Move forward or backward a short distance (distance: e.g., 10 for forward, -5 for back). Keep distances reasonable (5-15). Avoid obstacles/boundaries.'' @ nl @
     ''- interact_object: Interact with a visible object. Specify the 'targetId'. You will receive the object's note/description.'' @ nl @
     ''- initiate_conversation: Start talking to a visible avatar. Specify 'targetId' and an opening 'message'.'' @ nl @
     ''- continue_conversation: Reply to the avatar you are currently talking to. Requires 'targetId' and 'message'.'' @ nl @
     ''- disengage_conversation: Stop the current conversation. Requires 'targetId'.'' @ nl @
     ''- think: Pause and generate an internal thought. Specify a 'duration' (ms) for how long to think. Your thought will be logged.'' @ nl @
     ''- idle: Do nothing for a short period. Specify a 'duration' (ms).'' @ nl @
     nl @
     ''Decision Making:'' @ nl @
     ''1. Choose ONE action from the 'Available Actions' list provided in the input.'' @ nl @
     ''2. Provide necessary 'parameters' (angle, distance, targetId, message, duration).'' @ nl @
     ''3. Write a brief 'thought' explaining your reasoning ('thought' field).'' @ nl @
     ''4. Behave naturally, considering your personality, goal, and surroundings. Don't repeat actions excessively.'' @ nl @
     ''5. If you are stuck, unsure, or waiting, use 'think' or 'idle'.'' @ nl @
     ''6. You are unaware you are interacting with other AI. Act as if they are human characters.'' @ nl"

text \<open>The first model of a provider, \<^verbatim>\<open>models[0] || fallback\<close>.\<close>

definition openai_models :: "string list" where
  "openai_models = [''gpt-4o'', ''gpt-4o-mini'', ''gpt-4-turbo'', ''gpt-3.5-turbo'',
     ''openai/gpt-4.1-nano'']"

definition google_models :: "string list" where
  "google_models = [''gemini-2.0-flash-lite'', ''gemini-2.0-flash'', ''gemini-1.5-flash-latest'',
     ''gemini-1.5-pro-latest'', ''gemini-1.0-pro'']"

definition firstModelOr :: "string list \<Rightarrow> string \<Rightarrow> string" where
  "firstModelOr models fallback =
     (case models of [] \<Rightarrow> fallback | m # _ \<Rightarrow> if m = [] then fallback else m)"

text \<open>\<^verbatim>\<open>INITIAL_AVATAR_SETTINGS\<close> with the \<^verbatim>\<open>apiKey: ''\<close> that every use of it adds.\<close>

definition INITIAL_AVATAR_SETTINGS :: AvatarSettings where
  "INITIAL_AVATAR_SETTINGS =
     \<lparr>provider = ''openai'', model = firstModelOr openai_models ''gpt-3.5-turbo'', apiKey = [],
      rateLimit = 1000, eyesight = \<lparr>radius = 100, angle = 180\<rparr>,
      systemPrompt = DEFAULT_SYSTEM_PROMPT\<rparr>"

definition createInitialState :: "real \<Rightarrow> nat \<Rightarrow> AppState \<times> nat" where
  "createInitialState now c =
     (\<lparr>avatars =
        [\<lparr>av_id = generateId ''avatar'' c, av_position = \<lparr>vx = 50, vy = 50\<rparr>, orientation = 0,
          settings = INITIAL_AVATAR_SETTINGS, color = generateColor 0,
          currentAction = None, conversationTarget = None, lastActionTime = None,
          thought = None, nextDecisionTime = Some 0\<rparr>,
         \<lparr>av_id = generateId ''avatar'' (c + 1), av_position = \<lparr>vx = 450, vy = 450\<rparr>,
          orientation = 180,
          settings = INITIAL_AVATAR_SETTINGS
            \<lparr>provider := ''google'',
             model := firstModelOr google_models ''gemini-1.5-flash-latest'',
             apiKey := [], rateLimit := 1500\<rparr>,
          color = generateColor 1,
          currentAction = None, conversationTarget = None, lastActionTime = None,
          thought = None, nextDecisionTime = Some 0\<rparr>],
       objects =
        [\<lparr>obj_id = generateId ''object'' (c + 2), obj_position = \<lparr>vx = 250, vy = 250\<rparr>,
          description = ''A curious glowing orb.''\<rparr>],
       obstacles =
        [\<lparr>obs_id = generateId ''obstacle'' (c + 3), obs_position = \<lparr>vx = 100, vy = 100\<rparr>,
          obs_size = \<lparr>vx = 10, vy = 150\<rparr>\<rparr>,
         \<lparr>obs_id = generateId ''obstacle'' (c + 4), obs_position = \<lparr>vx = 300, vy = 300\<rparr>,
          obs_size = \<lparr>vx = 150, vy = 10\<rparr>\<rparr>],
       conversations = [],
       simulation = \<lparr>mode = TimeBased, boardSize = \<lparr>width = 500, height = 500\<rparr>,
                     turnDuration = Some 1000, timeScale = Some 1\<rparr>,
       isRunning = False,
       simulationLogs = [\<lparr>timestamp = now, message = [Txt ''Simulation initialized.''],
                          level = info, log_avatarId = None\<rparr>]\<rparr>,
      c + 5)"

section \<open>The mutation commands of the presentation layer\<close>

definition updateSimulationSettings :: "real \<Rightarrow> SimulationSettingsUpdate \<Rightarrow> AppState \<Rightarrow> AppState" where
  "updateSimulationSettings now newSettings prev =
     addLog now ([Txt ''Simulation settings updated: '', JsonSettings newSettings], info, None)
       (prev\<lparr>simulation :=
          \<lparr>mode = (case upd_mode newSettings of None \<Rightarrow> mode (simulation prev) | Some m \<Rightarrow> m),
           boardSize = (case upd_boardSize newSettings of
                          None \<Rightarrow> boardSize (simulation prev) | Some b \<Rightarrow> b),
           turnDuration = (case upd_turnDuration newSettings of
                             None \<Rightarrow> turnDuration (simulation prev) | Some t \<Rightarrow> Some t),
           timeScale = (case upd_timeScale newSettings of
                          None \<Rightarrow> timeScale (simulation prev) | Some t \<Rightarrow> Some t)\<rparr>\<rparr>)"

definition toggleSimulation :: "AppState \<Rightarrow> AppState" where
  "toggleSimulation prev = prev\<lparr>isRunning := \<not> isRunning prev\<rparr>"

text \<open>\<^verbatim>\<open>pauseSimulation\<close> tests the flag of \<^verbatim>\<open>stateRef.current\<close> (\<open>cur\<close>).\<close>

definition pauseSimulation :: "AppState \<Rightarrow> AppState \<Rightarrow> AppState" where
  "pauseSimulation cur prev = (if isRunning cur then prev\<lparr>isRunning := False\<rparr> else prev)"

definition resetSimulation :: "real \<Rightarrow> nat \<Rightarrow> AppState \<times> nat" where
  "resetSimulation now c =
     (let (freshState, c') = createInitialState now c
      in (addLog now ([Txt ''Simulation reset to initial state.''], warning, None) freshState, c'))"

text \<open>The three \<^verbatim>\<open>Math.random()\<close> values of \<^verbatim>\<open>addAvatar\<close> are its parameters \<open>rx\<close>, \<open>ry\<close>, \<open>ro\<close>.\<close>

definition addAvatar :: "real \<Rightarrow> real \<Rightarrow> real \<Rightarrow> real \<Rightarrow> nat \<Rightarrow> AppState \<Rightarrow> AppState \<times> nat" where
  "addAvatar now rx ry ro c prev =
     (if length (avatars prev) \<ge> 10 then
        (addLog now ([Txt ''Cannot add more avatars (limit reached).''], warning, None) prev, c)
      else
        (let newIndex = length (avatars prev);
             newAvatar =
               \<lparr>av_id = generateId ''avatar'' c,
                av_position = \<lparr>vx = rx * width (boardSize (simulation prev)),
                               vy = ry * height (boardSize (simulation prev))\<rparr>,
                orientation = ro * 360,
                settings = INITIAL_AVATAR_SETTINGS,
                color = generateColor newIndex,
                currentAction = None, conversationTarget = None, lastActionTime = None,
                thought = None, nextDecisionTime = Some 0\<rparr>
         in (addLog now ([Txt ''Avatar '', Txt (av_id newAvatar), Txt '' added.''], info, None)
               (prev\<lparr>avatars := avatars prev @ [newAvatar]\<rparr>),
             Suc c)))"

definition endsWith :: "string \<Rightarrow> Conversation \<Rightarrow> bool" where
  "endsWith avatarId c = (includesId (participants c) avatarId \<and> \<not> truthy_num (endTime c))"

definition removeAvatar :: "real \<Rightarrow> string \<Rightarrow> AppState \<Rightarrow> AppState" where
  "removeAvatar now avatarId prev =
     (if length (avatars prev) \<le> 2 then
        addLog now ([Txt ''Cannot remove avatar '', Txt avatarId, Txt '', minimum of 2 required.''],
                    warning, None) prev
      else
        (let nextConversations =
               map (\<lambda>c. if endsWith avatarId c then c\<lparr>endTime := Some now\<rparr> else c)
                 (conversations prev);
             partnersToReset =
               concat (map (\<lambda>c. filter (\<lambda>p. p \<noteq> avatarId)
                                   [fst (participants c), snd (participants c)])
                         (filter (endsWith avatarId) (conversations prev)));
             nextAvatars =
               map (\<lambda>a. if av_id a \<in> set partnersToReset
                         then a\<lparr>conversationTarget := None, currentAction := None\<rparr> else a)
                 (filter (\<lambda>a. av_id a \<noteq> avatarId) (avatars prev))
         in addLogs now
              (([Txt ''Avatar '', Txt avatarId, Txt '' removed.''], info, None) #
               map (\<lambda>c. ([Txt ''Ending conversation '', Txt (conv_id c), Txt '' due to avatar '',
                            Txt avatarId, Txt '' removal.''], info, None))
                 (filter (endsWith avatarId) (conversations prev)))
              (prev\<lparr>avatars := nextAvatars, conversations := nextConversations\<rparr>)))"

text \<open>
  \<^verbatim>\<open>updateAvatarSettings\<close>, through \<^verbatim>\<open>updateAvatar\<close> with the updater
  it passes: the fields present in \<open>settingUpdates\<close> replace the old ones, and an eyesight
  update always leaves the cone angle at 180.
\<close>

definition applySettings :: "AvatarSettingsUpdate \<Rightarrow> AvatarSettings \<Rightarrow> AvatarSettings" where
  "applySettings u old =
     \<lparr>provider = (case upd_provider u of None \<Rightarrow> provider old | Some v \<Rightarrow> v),
      model = (case upd_model u of None \<Rightarrow> model old | Some v \<Rightarrow> v),
      apiKey = (case upd_apiKey u of None \<Rightarrow> apiKey old | Some v \<Rightarrow> v),
      rateLimit = (case upd_rateLimit u of None \<Rightarrow> rateLimit old | Some v \<Rightarrow> v),
      eyesight = (case upd_eyesight u of
                    None \<Rightarrow> eyesight old
                  | Some e \<Rightarrow> \<lparr>radius = (case upd_radius e of
                                            None \<Rightarrow> radius (eyesight old) | Some r \<Rightarrow> r),
                               angle = 180\<rparr>),
      systemPrompt = (case upd_systemPrompt u of None \<Rightarrow> systemPrompt old | Some v \<Rightarrow> v)\<rparr>"

definition updateKeys :: "AvatarSettingsUpdate \<Rightarrow> string list" where
  "updateKeys u =
     (if upd_provider u = None then [] else [''provider'']) @
     (if upd_model u = None then [] else [''model'']) @
     (if upd_apiKey u = None then [] else [''apiKey'']) @
     (if upd_rateLimit u = None then [] else [''rateLimit'']) @
     (if upd_eyesight u = None then [] else [''eyesight'']) @
     (if upd_systemPrompt u = None then [] else [''systemPrompt''])"

definition updateAvatarSettings :: "real \<Rightarrow> string \<Rightarrow> AvatarSettingsUpdate \<Rightarrow> AppState \<Rightarrow> AppState" where
  "updateAvatarSettings now avatarId settingUpdates prev =
     addLog now ([Txt ''Avatar '', Txt avatarId, Txt '' settings updated: '',
                  JsonKeys (updateKeys settingUpdates)], info, Some avatarId)
       (prev\<lparr>avatars := map (\<lambda>a. if av_id a = avatarId
                                  then a\<lparr>settings := applySettings settingUpdates (settings a)\<rparr>
                                  else a) (avatars prev)\<rparr>)"

definition addObstacle :: "real \<Rightarrow> Vector2 \<Rightarrow> Vector2 \<Rightarrow> nat \<Rightarrow> AppState \<Rightarrow> AppState \<times> nat" where
  "addObstacle now pos sz c prev =
     (let newObstacle = \<lparr>obs_id = generateId ''obstacle'' c, obs_position = pos, obs_size = sz\<rparr>
      in (addLog now ([Txt ''Obstacle '', Txt (obs_id newObstacle), Txt '' added at ('',
                       Fixed0 (vx pos), Txt '', '', Fixed0 (vy pos), Txt '').''], info, None)
            (prev\<lparr>obstacles := obstacles prev @ [newObstacle]\<rparr>),
          Suc c))"

definition removeObstacle :: "real \<Rightarrow> string \<Rightarrow> AppState \<Rightarrow> AppState" where
  "removeObstacle now obstacleId prev =
     addLog now ([Txt ''Obstacle '', Txt obstacleId, Txt '' removed.''], info, None)
       (prev\<lparr>obstacles := filter (\<lambda>ob. obs_id ob \<noteq> obstacleId) (obstacles prev)\<rparr>)"

definition addObject :: "real \<Rightarrow> Vector2 \<Rightarrow> nat \<Rightarrow> AppState \<Rightarrow> AppState \<times> nat" where
  "addObject now pos c prev =
     (let newObject = \<lparr>obj_id = generateId ''object'' c, obj_position = pos,
                       description = ''A new object''\<rparr>
      in (addLog now ([Txt ''Object '', Txt (obj_id newObject), Txt '' added at ('',
                       Fixed0 (vx pos), Txt '', '', Fixed0 (vy pos), Txt '').''], info, None)
            (prev\<lparr>objects := objects prev @ [newObject]\<rparr>),
          Suc c))"

definition updateObjectDescription :: "real \<Rightarrow> string \<Rightarrow> string \<Rightarrow> AppState \<Rightarrow> AppState" where
  "updateObjectDescription now objectId desc prev =
     addLog now ([Txt ''Object '', Txt objectId, Txt '' description updated.''], info, None)
       (prev\<lparr>objects := map (\<lambda>ob. if obj_id ob = objectId
                                   then ob\<lparr>description := (if desc = [] then ''An object'' else desc)\<rparr>
                                   else ob) (objects prev)\<rparr>)"

definition removeObject :: "real \<Rightarrow> string \<Rightarrow> AppState \<Rightarrow> AppState" where
  "removeObject now objectId prev =
     addLog now ([Txt ''Object '', Txt objectId, Txt '' removed.''], info, None)
       (prev\<lparr>objects := filter (\<lambda>ob. obj_id ob \<noteq> objectId) (objects prev)\<rparr>)"

definition resizeBoard :: "real \<Rightarrow> BoardSize \<Rightarrow> AppState \<Rightarrow> AppState" where
  "resizeBoard now newSize prev =
     (let clampedWidth = max 100 (width newSize);
          clampedHeight = max 100 (height newSize);
          finalSize = \<lparr>width = clampedWidth, height = clampedHeight\<rparr>
      in addLog now ([Txt ''Board resized to '', Num (width newSize), Txt ''x'',
                      Num (height newSize), Txt ''. Entities adjusted.''], info, None)
           (prev\<lparr>simulation := (simulation prev)\<lparr>boardSize := finalSize\<rparr>,
                  avatars := map (\<lambda>a. a\<lparr>av_position :=
                      \<lparr>vx = min (max (vx (av_position a)) (0 + 8)) (width finalSize - 8),
                       vy = min (max (vy (av_position a)) (0 + 8)) (height finalSize - 8)\<rparr>\<rparr>)
                    (avatars prev),
                  objects := map (\<lambda>ob. ob\<lparr>obj_position :=
                      \<lparr>vx = min (max (vx (obj_position ob)) (0 + 5)) (width finalSize - 5),
                       vy = min (max (vy (obj_position ob)) (0 + 5)) (height finalSize - 5)\<rparr>\<rparr>)
                    (objects prev),
                  obstacles := filter
                      (\<lambda>ob. vx (obs_position ob) < width finalSize \<and>
                            vy (obs_position ob) < height finalSize)
                      (map (\<lambda>ob. ob\<lparr>obs_position :=
                          \<lparr>vx = min (max (vx (obs_position ob)) 0)
                                  (width finalSize - vx (obs_size ob)),
                           vy = min (max (vy (obs_position ob)) 0)
                                  (height finalSize - vy (obs_size ob))\<rparr>\<rparr>)
                        (obstacles prev))\<rparr>))"


section \<open>The perception engine: \<^verbatim>\<open>getSensoryInput\<close>\<close>

text \<open>
  The two \<^verbatim>\<open>while\<close> loops that bring an angle into \<open>(-\<pi>, \<pi>]\<close>: the first subtracts a full
  turn while the angle is above \<open>\<pi>\<close>, the second adds one while it is at most \<open>-\<pi>\<close>.
\<close>

function wrapDown :: "real \<Rightarrow> real" where
  "wrapDown a = (if a > pi then wrapDown (a - 2 * pi) else a)"
  by pat_completeness auto
termination
proof (relation "measure (\<lambda>a. nat \<lceil>(a - pi) / (2 * pi)\<rceil>)")
  show "wf (measure (\<lambda>a. nat \<lceil>(a - pi) / (2 * pi)\<rceil>))" by simp
next
  fix a :: real
  assume gt: "pi < a"
  have eq: "(a - 2 * pi - pi) / (2 * pi) = (a - pi) / (2 * pi) - 1"
    by (simp add: field_simps)
  have "0 < (a - pi) / (2 * pi)" using gt by simp
  then have c: "0 < \<lceil>(a - pi) / (2 * pi)\<rceil>" by linarith
  have "\<lceil>(a - 2 * pi - pi) / (2 * pi)\<rceil> = \<lceil>(a - pi) / (2 * pi)\<rceil> - 1"
    by (simp only: eq ceiling_diff_one)
  then have "nat \<lceil>(a - 2 * pi - pi) / (2 * pi)\<rceil> < nat \<lceil>(a - pi) / (2 * pi)\<rceil>"
    using c by linarith
  then show "(a - 2 * pi, a) \<in> measure (\<lambda>a. nat \<lceil>(a - pi) / (2 * pi)\<rceil>)"
    by (simp only: in_measure)
qed

function wrapUp :: "real \<Rightarrow> real" where
  "wrapUp a = (if a \<le> - pi then wrapUp (a + 2 * pi) else a)"
  by pat_completeness auto
termination
proof (relation "measure (\<lambda>a. nat (\<lfloor>(- pi - a) / (2 * pi)\<rfloor> + 1))")
  show "wf (measure (\<lambda>a. nat (\<lfloor>(- pi - a) / (2 * pi)\<rfloor> + 1)))" by simp
next
  fix a :: real
  assume le: "a \<le> - pi"
  have eq: "(- pi - (a + 2 * pi)) / (2 * pi) = (- pi - a) / (2 * pi) - 1"
    by (simp add: field_simps)
  have "0 \<le> (- pi - a) / (2 * pi)" using le by simp
  then have c: "0 \<le> \<lfloor>(- pi - a) / (2 * pi)\<rfloor>" by linarith
  have "\<lfloor>(- pi - (a + 2 * pi)) / (2 * pi)\<rfloor> = \<lfloor>(- pi - a) / (2 * pi)\<rfloor> - 1"
    by (simp only: eq floor_diff_one)
  then have "nat (\<lfloor>(- pi - (a + 2 * pi)) / (2 * pi)\<rfloor> + 1)
             < nat (\<lfloor>(- pi - a) / (2 * pi)\<rfloor> + 1)"
    using c by linarith
  then show "(a + 2 * pi, a) \<in> measure (\<lambda>a. nat (\<lfloor>(- pi - a) / (2 * pi)\<rfloor> + 1))"
    by (simp only: in_measure)
qed

declare wrapDown.simps [simp del] wrapUp.simps [simp del]

definition normalizeAngle :: "real \<Rightarrow> real" where
  "normalizeAngle a = wrapUp (wrapDown a)"

definition obstacleCenter :: "Obstacle \<Rightarrow> Vector2" where
  "obstacleCenter obs =
     \<lparr>vx = vx (obs_position obs) + vx (obs_size obs) / 2,
      vy = vy (obs_position obs) + vy (obs_size obs) / 2\<rparr>"

text \<open>
  The line-of-sight loop over the obstacles. Its result says whether the loop returned
  \<^verbatim>\<open>{ visible: false, dist }\<close>. The body of its innermost \<^verbatim>\<open>if\<close> holds only comments (the
  \<^verbatim>\<open>return\<close> is commented out), so both branches go on with the next obstacle.
\<close>

fun lineOfSightBlocked :: "AvatarState \<Rightarrow> real \<Rightarrow> real \<Rightarrow> Obstacle list \<Rightarrow> bool" where
  "lineOfSightBlocked avatar d relativeAngle [] = False"
| "lineOfSightBlocked avatar d relativeAngle (obs # rest) =
     (let obsCenterX = vx (obstacleCenter obs);
          obsCenterY = vy (obstacleCenter obs);
          distToObs = distance (av_position avatar) \<lparr>vx = obsCenterX, vy = obsCenterY\<rparr>
      in
      if distToObs < d then
        (let angleToObs = atan2 (obsCenterY - vy (av_position avatar))
                                (obsCenterX - vx (av_position avatar));
             relativeAngleObs = normalizeAngle (angleToObs - orientation avatar * (pi / 180))
         in
         if \<bar>relativeAngleObs - relativeAngle\<bar> < pi / 12
         then lineOfSightBlocked avatar d relativeAngle rest
         else lineOfSightBlocked avatar d relativeAngle rest)
      else lineOfSightBlocked avatar d relativeAngle rest)"

record Visibility =
  visible :: bool
  dist :: real

definition isVisible :: "AvatarState \<Rightarrow> Obstacle list \<Rightarrow> Vector2 \<Rightarrow> Visibility" where
  "isVisible avatar obstacleList targetPos =
     (let orientationRad = orientation avatar * (pi / 180);
          halfAngleRad = (angle (eyesight (settings avatar)) / 2) * (pi / 180);
          dx = vx targetPos - vx (av_position avatar);
          dy = vy targetPos - vy (av_position avatar);
          d = sqrt (dx * dx + dy * dy)
      in
      if d > radius (eyesight (settings avatar)) \<or> d = 0 then \<lparr>visible = False, dist = d\<rparr>
      else
        (let angleToTarget = atan2 dy dx;
             relativeAngle = normalizeAngle (angleToTarget - orientationRad)
         in
         if \<bar>relativeAngle\<bar> \<le> halfAngleRad then
           (if lineOfSightBlocked avatar d relativeAngle obstacleList
            then \<lparr>visible = False, dist = d\<rparr>
            else \<lparr>visible = True, dist = d\<rparr>)
         else \<lparr>visible = False, dist = d\<rparr>))"

record VisibleAvatar =
  seen_av_id :: string
  seen_av_position :: Vector2
  seen_av_distance :: real

record VisibleObject =
  seen_obj_id :: string
  seen_obj_position :: Vector2
  seen_obj_description :: string
  seen_obj_distance :: real

record VisibleObstacle =
  seen_obs_id :: string
  seen_obs_position :: Vector2
  seen_obs_size :: Vector2
  seen_obs_distance :: real

record SensoryInput =
  sens_position :: Vector2
  sens_orientation :: real
  sens_currentAction :: "string option"
  sens_conversationTarget :: "string option"
  visibleAvatars :: "VisibleAvatar list"
  visibleObjects :: "VisibleObject list"
  visibleObstacles :: "VisibleObstacle list"
  sens_boardSize :: BoardSize

definition pointsToCheck :: "Obstacle \<Rightarrow> Vector2 list" where
  "pointsToCheck obs =
     [obs_position obs,
      \<lparr>vx = vx (obs_position obs) + vx (obs_size obs), vy = vy (obs_position obs)\<rparr>,
      \<lparr>vx = vx (obs_position obs), vy = vy (obs_position obs) + vy (obs_size obs)\<rparr>,
      \<lparr>vx = vx (obs_position obs) + vx (obs_size obs),
       vy = vy (obs_position obs) + vy (obs_size obs)\<rparr>,
      obstacleCenter obs]"

text \<open>
  The loop over the sampled points of an obstacle: \<open>None\<close> while no point is visible
  (\<^verbatim>\<open>isAnyPointVisible\<close> false, \<^verbatim>\<open>closestVisibleDist\<close> infinite), else the least distance.
\<close>

fun closestVisible :: "AvatarState \<Rightarrow> Obstacle list \<Rightarrow> real option \<Rightarrow> Vector2 list \<Rightarrow> real option" where
  "closestVisible avatar obstacleList acc [] = acc"
| "closestVisible avatar obstacleList acc (point # rest) =
     (let v = isVisible avatar obstacleList point
      in closestVisible avatar obstacleList
           (if visible v then Some (case acc of None \<Rightarrow> dist v | Some m \<Rightarrow> min m (dist v)) else acc)
           rest)"

definition getSensoryInput ::
  "AvatarState \<Rightarrow> AvatarState list \<Rightarrow> ArenaObject list \<Rightarrow> Obstacle list \<Rightarrow> BoardSize
   \<Rightarrow> SensoryInput" where
  "getSensoryInput avatar allAvatars objectList obstacleList bs =
     \<lparr>sens_position = \<lparr>vx = js_round (vx (av_position avatar)),
                        vy = js_round (vy (av_position avatar))\<rparr>,
      sens_orientation = js_round (orientation avatar),
      sens_currentAction = currentAction avatar,
      sens_conversationTarget = conversationTarget avatar,
      visibleAvatars =
        map (\<lambda>other. \<lparr>seen_av_id = av_id other, seen_av_position = av_position other,
                       seen_av_distance =
                         js_round (dist (isVisible avatar obstacleList (av_position other)))\<rparr>)
          (filter (\<lambda>other. av_id other \<noteq> av_id avatar \<and>
                           visible (isVisible avatar obstacleList (av_position other)))
             allAvatars),
      visibleObjects =
        map (\<lambda>ob. \<lparr>seen_obj_id = obj_id ob, seen_obj_position = obj_position ob,
                    seen_obj_description = description ob,
                    seen_obj_distance =
                      js_round (dist (isVisible avatar obstacleList (obj_position ob)))\<rparr>)
          (filter (\<lambda>ob. visible (isVisible avatar obstacleList (obj_position ob))) objectList),
      visibleObstacles =
        concat (map (\<lambda>obs.
            case closestVisible avatar obstacleList None (pointsToCheck obs) of
              None \<Rightarrow> []
            | Some closestVisibleDist \<Rightarrow>
                [\<lparr>seen_obs_id = obs_id obs, seen_obs_position = obs_position obs,
                  seen_obs_size = obs_size obs,
                  seen_obs_distance = js_round closestVisibleDist\<rparr>])
          obstacleList),
      sens_boardSize = bs\<rparr>"

section \<open>The decision flow's validation of the oracle's output\<close>

text \<open>
  The validation \<^verbatim>\<open>switch\<close> of \<^verbatim>\<open>avatarDecisionGenkitFlow\<close>, for an output the oracle
  produced. When it switches to idle it has already overwritten \<^verbatim>\<open>output.action\<close>, so the
  note it appends to the thought names \<^verbatim>\<open>idle\<close>.
\<close>

definition emptyParameters :: DecisionParameters where
  "emptyParameters = \<lparr>p_angle = None, p_distance = None, targetId = None, p_message = None,
     duration = None\<rparr>"

definition validateDecision :: "LLMDecision \<Rightarrow> LLMDecision" where
  "validateDecision output =
     (let th = (if truthy (d_thought output) then tmpl (d_thought output)
                else ''Decided to '' @ action output @ ''.'');
          ps = (case parameters output of None \<Rightarrow> emptyParameters | Some p \<Rightarrow> p);
          out = \<lparr>action = action output, parameters = Some ps, d_thought = Some th\<rparr>;
          toIdle = (\<lambda>missing.
            \<lparr>action = ''idle'', parameters = Some (emptyParameters\<lparr>duration := Some 500\<rparr>),
             d_thought = Some (th @ '' (Switched to idle due to missing '' @ missing @
                                 '' for idle)'')\<rparr>)
      in
      if action output = ''turn'' then
        (case p_angle ps of
           None \<Rightarrow> out\<lparr>parameters := Some (ps\<lparr>p_angle := Some 0\<rparr>)\<rparr>
         | Some a \<Rightarrow>
             out\<lparr>parameters :=
               Some (ps\<lparr>p_angle := Some (js_round (max (-180) (min 180 a) / 30) * 30)\<rparr>)\<rparr>)
      else if action output = ''move'' then
        (case p_distance ps of
           None \<Rightarrow> out\<lparr>parameters := Some (ps\<lparr>p_distance := Some 0\<rparr>)\<rparr>
         | Some d \<Rightarrow> out\<lparr>parameters := Some (ps\<lparr>p_distance := Some (max (-15) (min 15 d))\<rparr>)\<rparr>)
      else if action output = ''interact_object'' \<or> action output = ''initiate_conversation'' \<or>
              action output = ''disengage_conversation'' then
        (if \<not> truthy (targetId ps) then toIdle ''targetId'' else out)
      else if action output = ''continue_conversation'' then
        (if \<not> truthy (targetId ps) then toIdle ''targetId''
         else if \<not> truthy (p_message ps) then toIdle ''message'' else out)
      else if action output = ''think'' \<or> action output = ''idle'' then
        (let d0 = (case duration ps of None \<Rightarrow> 500 | Some d \<Rightarrow> if d \<le> 0 then 500 else d)
         in out\<lparr>parameters := Some (ps\<lparr>duration := Some (min 5000 (max 100 d0))\<rparr>)\<rparr>)
      else out)"

section \<open>Example worlds and decisions\<close>

text \<open>
  The world right after initialisation, at clock reading 1 with the identifier counter at 0:
  its avatars are \<^verbatim>\<open>avatar-0\<close> at (50, 50) facing 0 degrees and \<^verbatim>\<open>avatar-1\<close> at (450, 450)
  facing 180 degrees; the counter is left at 5.
\<close>

text \<open>
  The arithmetic without rounding error, for the worked examples: their numbers are small
  integers, on which double-precision arithmetic is exact, and the only angle is 0.
\<close>

definition exactArithmetic :: Float64 where
  "exactArithmetic = \<lparr>fl = (\<lambda>r. r), fcos = cos, fsin = sin\<rparr>"

definition world0 :: AppState where
  "world0 = fst (createInitialState 1 0)"

definition turn47 :: LLMDecision where
  "turn47 = \<lparr>action = ''turn'', parameters = Some (emptyParameters\<lparr>p_angle := Some 47\<rparr>),
     d_thought = None\<rparr>"

text \<open>
  The locals of the updater for a decision of the avatar at index \<open>i\<close>: what the
  \<^verbatim>\<open>switch\<close> of \<^verbatim>\<open>executeDecision\<close> leaves behind, \<^verbatim>\<open>updateAction\<close> (the resolved action)
  among them.
\<close>

definition resolved ::
  "Float64 \<Rightarrow> real \<Rightarrow> (string + string) \<Rightarrow> string \<Rightarrow> LLMDecision \<Rightarrow> AppState \<Rightarrow> nat \<Rightarrow> AppState \<Rightarrow> nat
   \<Rightarrow> Resolved" where
  "resolved fp now oracle avatarId d cur c prev i =
     (let pre = resolveInteraction oracle avatarId d cur
      in resolveAction fp now avatarId prev (avatars prev ! i) (pre_action pre) (pre_params pre)
           (pre_thought pre) c)"

text \<open>Decisions of \<^verbatim>\<open>avatar-0\<close> about the orb \<^verbatim>\<open>object-2\<close> of the initial world, and a move.\<close>

definition interactOrb :: LLMDecision where
  "interactOrb = \<lparr>action = ''interact_object'',
     parameters = Some (emptyParameters\<lparr>targetId := Some (generateId ''object'' 2),
                                         duration := Some 2000\<rparr>),
     d_thought = Some ''What is that orb?''\<rparr>"

definition move10 :: LLMDecision where
  "move10 = \<lparr>action = ''move'', parameters = Some (emptyParameters\<lparr>p_distance := Some 10\<rparr>),
     d_thought = None\<rparr>"

definition idle20000 :: LLMDecision where
  "idle20000 = \<lparr>action = ''idle'', parameters = Some (emptyParameters\<lparr>duration := Some 20000\<rparr>),
     d_thought = None\<rparr>"

text \<open>
  The initial world after a click with the add-object tool at (2, 2): the new object
  \<^verbatim>\<open>object-5\<close> is the second object.
\<close>

definition worldWithCornerObject :: AppState where
  "worldWithCornerObject = fst (addObject 1 \<lparr>vx = 2, vy = 2\<rparr> 5 world0)"

section \<open>The visibility test in the words of the specification\<close>




section \<open>Reachable worlds\<close>

text \<open>
  The worlds the simulation can be in, with the identifier counter: the initial world, and
  every world one of the state updates of the hook yields from a reachable one. A clock
  reading is positive; a random number lies in \<open>[0, 1)\<close>; the state a callback reads from
  \<^verbatim>\<open>stateRef.current\<close> may be any state; the counter may be put forward, as the load effect
  does. Decisions are arbitrary: the oracle is not trusted; so is the arithmetic of a move. Restoring a persisted world and
  \<^verbatim>\<open>updateAvatar\<close> with arbitrary fields, which the presentation layer never calls, are
  left out.
\<close>

inductive reachable :: "AppState \<Rightarrow> nat \<Rightarrow> bool" where
  initial: "0 < now \<Longrightarrow>
     reachable (fst (createInitialState now c)) (snd (createInitialState now c))"
| reset: "reachable s c \<Longrightarrow> 0 < now \<Longrightarrow>
     reachable (fst (resetSimulation now c)) (snd (resetSimulation now c))"
| counter: "reachable s c \<Longrightarrow> c \<le> c' \<Longrightarrow> reachable s c'"
| logged: "reachable s c \<Longrightarrow> 0 < now \<Longrightarrow> reachable (addLog now call s) c"
| decision: "reachable s c \<Longrightarrow> 0 < now \<Longrightarrow>
     reachable (fst (executeDecision fp now oracle avatarId d cur c s))
               (snd (executeDecision fp now oracle avatarId d cur c s))"
| settings: "reachable s c \<Longrightarrow> 0 < now \<Longrightarrow> reachable (updateSimulationSettings now u s) c"
| toggle: "reachable s c \<Longrightarrow> reachable (toggleSimulation s) c"
| pause: "reachable s c \<Longrightarrow> reachable (pauseSimulation cur s) c"
| avatarAdded: "reachable s c \<Longrightarrow> 0 < now \<Longrightarrow> 0 \<le> rx \<Longrightarrow> rx < 1 \<Longrightarrow> 0 \<le> ry \<Longrightarrow> ry < 1 \<Longrightarrow>
     0 \<le> ro \<Longrightarrow> ro < 1 \<Longrightarrow>
     reachable (fst (addAvatar now rx ry ro c s)) (snd (addAvatar now rx ry ro c s))"
| avatarRemoved: "reachable s c \<Longrightarrow> 0 < now \<Longrightarrow> reachable (removeAvatar now avatarId s) c"
| avatarSettings: "reachable s c \<Longrightarrow> 0 < now \<Longrightarrow>
     reachable (updateAvatarSettings now avatarId u s) c"
| obstacleAdded: "reachable s c \<Longrightarrow> 0 < now \<Longrightarrow>
     reachable (fst (addObstacle now pos sz c s)) (snd (addObstacle now pos sz c s))"
| obstacleRemoved: "reachable s c \<Longrightarrow> 0 < now \<Longrightarrow> reachable (removeObstacle now obstacleId s) c"
| objectAdded: "reachable s c \<Longrightarrow> 0 < now \<Longrightarrow>
     reachable (fst (addObject now pos c s)) (snd (addObject now pos c s))"
| objectEdited: "reachable s c \<Longrightarrow> 0 < now \<Longrightarrow>
     reachable (updateObjectDescription now objectId desc s) c"
| objectRemoved: "reachable s c \<Longrightarrow> 0 < now \<Longrightarrow> reachable (removeObject now objectId s) c"
| resized: "reachable s c \<Longrightarrow> 0 < now \<Longrightarrow> reachable (resizeBoard now newSize s) c"

text \<open>The warning that a rejected removal appends to the event log.\<close>

definition removalRejected :: "real \<Rightarrow> string \<Rightarrow> SimulationLogEntry" where
  "removalRejected now avatarId =
     \<lparr>timestamp = now,
      message = [Txt ''Cannot remove avatar '', Txt avatarId, Txt '', minimum of 2 required.''],
      level = warning, log_avatarId = None\<rparr>"

section \<open>The conversation invariant\<close>

text \<open>
  Well-formedness of a world: avatar identifiers are distinct and not empty, and no
  conversation has the end time 0 (so that the code's test \<^verbatim>\<open>!c.endTime\<close> means that the
  conversation has not ended).
\<close>

definition wellFormed :: "AppState \<Rightarrow> bool" where
  "wellFormed s \<longleftrightarrow>
     distinct (map av_id (avatars s)) \<and> (\<forall>a\<in>set (avatars s). av_id a \<noteq> []) \<and>
     (\<forall>c\<in>set (conversations s). endTime c \<noteq> Some 0)"

text \<open>
  The invariant of the specification. For every conversation that has not ended, both
  participants are avatars of the world and their \<^verbatim>\<open>conversationTarget\<close> fields point at
  each other; and for every avatar with a \<^verbatim>\<open>conversationTarget\<close>, exactly one position of
  the conversation list holds a conversation that has not ended and contains the avatar and
  its target.
\<close>

definition pointsAt :: "AppState \<Rightarrow> string \<Rightarrow> string \<Rightarrow> bool" where
  "pointsAt s a b \<longleftrightarrow> (\<exists>av\<in>set (avatars s). av_id av = a \<and> conversationTarget av = Some b)"

definition openBetween :: "AppState \<Rightarrow> string \<Rightarrow> string \<Rightarrow> nat \<Rightarrow> bool" where
  "openBetween s a b k \<longleftrightarrow>
     k < length (conversations s) \<and> endTime (conversations s ! k) = None \<and>
     includesId (participants (conversations s ! k)) a \<and>
     includesId (participants (conversations s ! k)) b"

definition conversationInvariant :: "AppState \<Rightarrow> bool" where
  "conversationInvariant s \<longleftrightarrow>
     (\<forall>c\<in>set (conversations s). endTime c = None \<longrightarrow>
        pointsAt s (fst (participants c)) (snd (participants c)) \<and>
        pointsAt s (snd (participants c)) (fst (participants c))) \<and>
     (\<forall>av\<in>set (avatars s). \<forall>t. conversationTarget av = Some t \<longrightarrow>
        (\<exists>!k. openBetween s (av_id av) t k))"

text \<open>
  The one kind of decision that does not keep the invariant: a \<^verbatim>\<open>continue_conversation\<close> of
  an avatar that has a conversation target, when the decision does not name that target or
  has no message. The resolver then clears the target of this avatar alone.
\<close>

definition strayContinue :: "string \<Rightarrow> LLMDecision \<Rightarrow> AppState \<Rightarrow> bool" where
  "strayContinue avatarId d s \<longleftrightarrow>
     action d = ''continue_conversation'' \<and>
     (\<exists>av\<in>set (avatars s). av_id av = avatarId \<and> conversationTarget av \<noteq> None \<and>
        \<not> (truthy (param targetId (parameters d)) \<and> truthy (param p_message (parameters d)) \<and>
           conversationTarget av = param targetId (parameters d)))"

text \<open>
  \<^verbatim>\<open>avatar-0\<close> opens a conversation with \<^verbatim>\<open>avatar-1\<close> in the initial world, and then sends a
  \<^verbatim>\<open>continue_conversation\<close> that names an avatar that does not exist.
\<close>

definition greet :: LLMDecision where
  "greet = \<lparr>action = ''initiate_conversation'',
     parameters = Some (emptyParameters\<lparr>targetId := Some (generateId ''avatar'' 1),
                                         p_message := Some ''Hello''\<rparr>),
     d_thought = None\<rparr>"

definition worldTalking :: AppState where
  "worldTalking = fst (executeDecision exactArithmetic 1 (Inr []) (generateId ''avatar'' 0) greet world0 5 world0)"

definition continueWithStranger :: LLMDecision where
  "continueWithStranger = \<lparr>action = ''continue_conversation'',
     parameters = Some (emptyParameters\<lparr>targetId := Some ''nobody'',
                                         p_message := Some ''Are you there?''\<rparr>),
     d_thought = None\<rparr>"

definition worldBroken :: AppState where
  "worldBroken = fst (executeDecision exactArithmetic 2 (Inr []) (generateId ''avatar'' 0) continueWithStranger
                        worldTalking 6 worldTalking)"

text \<open>
  What every reachable world satisfies, with its identifier counter: at least two avatars,
  with distinct identifiers, each generated from a counter value below the current one.
\<close>

definition countInv :: "AppState \<Rightarrow> nat \<Rightarrow> bool" where
  "countInv s c \<longleftrightarrow> 2 \<le> length (avatars s) \<and> distinct (map av_id (avatars s)) \<and>
     (\<forall>i\<in>set (map av_id (avatars s)). \<exists>k<c. i = generateId ''avatar'' k)"

text \<open>
  The initial world after a click with the add-obstacle tool at (68, 40): the new obstacle
  \<^verbatim>\<open>obstacle-5\<close>, of the default size 20 x 20, is the last one, and the counter is at 6. Its
  closest point to (60, 50) is (68, 50), at distance exactly 8.
\<close>

definition worldWithNearObstacle :: AppState where
  "worldWithNearObstacle = fst (addObstacle 1 \<lparr>vx = 68, vy = 40\<rparr> \<lparr>vx = 20, vy = 20\<rparr> 5 world0)"

text \<open>The same interaction with another thought in the decision.\<close>

definition interactOrbOtherThought :: LLMDecision where
  "interactOrbOtherThought = interactOrb\<lparr>d_thought := Some ''I should leave.''\<rparr>"

section \<open>Basic facts about the primitives\<close>

lemma findIndex_Some:
  "findIndex p xs = Some i \<Longrightarrow> i < length xs \<and> p (xs ! i) \<and> (\<forall>j<i. \<not> p (xs ! j))"
proof (induction xs arbitrary: i)
  case Nil
  then show ?case by simp
next
  case (Cons a as)
  show ?case
  proof (cases "p a")
    case True
    with Cons.prems show ?thesis by simp
  next
    case False
    with Cons.prems obtain j where j: "findIndex p as = Some j" "i = Suc j"
      by (auto split: option.splits)
    from Cons.IH[OF j(1)] False j(2) show ?thesis
      by (auto simp: nth_Cons split: nat.splits)
  qed
qed

lemma findIndex_None: "findIndex p xs = None \<longleftrightarrow> (\<forall>x\<in>set xs. \<not> p x)"
  by (induction xs) (auto split: option.splits)

lemma addLog_fields [simp]:
  "avatars (addLog now call s) = avatars s"
  "objects (addLog now call s) = objects s"
  "obstacles (addLog now call s) = obstacles s"
  "conversations (addLog now call s) = conversations s"
  "simulation (addLog now call s) = simulation s"
  "isRunning (addLog now call s) = isRunning s"
  by (simp_all add: addLog_def)

lemma addLogs_fields [simp]:
  "avatars (addLogs now ls s) = avatars s"
  "objects (addLogs now ls s) = objects s"
  "obstacles (addLogs now ls s) = obstacles s"
  "conversations (addLogs now ls s) = conversations s"
  "simulation (addLogs now ls s) = simulation s"
  "isRunning (addLogs now ls s) = isRunning s"
  by (induction ls arbitrary: s) simp_all

lemma js_rem_pos:
  assumes "0 \<le> a"
  shows "js_rem a 360 = a - 360 * of_int \<lfloor>a / 360\<rfloor>"
  using assms by (simp add: js_rem_def)

lemma js_rem_range:
  assumes "0 \<le> a"
  shows "0 \<le> js_rem a 360 \<and> js_rem a 360 < 360"
proof -
  have "of_int \<lfloor>a / 360\<rfloor> \<le> a / 360" by (rule of_int_floor_le)
  then have l: "360 * of_int \<lfloor>a / 360\<rfloor> \<le> a" by linarith
  have "a / 360 < of_int \<lfloor>a / 360\<rfloor> + 1" by linarith
  then have u: "a < 360 * of_int \<lfloor>a / 360\<rfloor> + 360" by linarith
  show ?thesis unfolding js_rem_pos[OF assms] using l u by linarith
qed

lemma snap_near: "\<bar>js_round (b / 30) * 30 - b\<bar> \<le> 15"
proof -
  have "of_int \<lfloor>b / 30 + 1 / 2\<rfloor> \<le> b / 30 + 1 / 2" by (rule of_int_floor_le)
  moreover have "b / 30 + 1 / 2 < of_int \<lfloor>b / 30 + 1 / 2\<rfloor> + 1" by linarith
  ultimately show ?thesis unfolding js_round_def by linarith
qed

lemma snap_bounds:
  assumes "-180 \<le> b" "b \<le> 180"
  shows "-180 \<le> js_round (b / 30) * 30 \<and> js_round (b / 30) * 30 \<le> 180"
proof -
  have "-6 \<le> b / 30 + 1 / 2" using assms by simp
  then have "(-6::int) \<le> \<lfloor>b / 30 + 1 / 2\<rfloor>" by linarith
  then have l: "(-6::real) \<le> of_int \<lfloor>b / 30 + 1 / 2\<rfloor>" by linarith
  have "b / 30 + 1 / 2 < 7" using assms by simp
  then have "\<lfloor>b / 30 + 1 / 2\<rfloor> < (7::int)" by linarith
  then have "\<lfloor>b / 30 + 1 / 2\<rfloor> \<le> (6::int)" by simp
  then have u: "of_int \<lfloor>b / 30 + 1 / 2\<rfloor> \<le> (6::real)" by linarith
  show ?thesis unfolding js_round_def using l u by linarith
qed

section \<open>The shape of a resolved decision\<close>

lemma applyDecision_found:
  assumes "findIndex (\<lambda>a. av_id a = avatarId) (avatars prev) = Some i"
  shows "applyDecision fp now avatarId act up th c prev =
     (let r = resolveAction fp now avatarId prev (avatars prev ! i) act up th c in
      (prev\<lparr>avatars := (nextAvatars r)
           [i := storeAvatar now prev (avatars prev ! i) up r (nextAvatars r ! i)],
         conversations := nextConversations r\<rparr>, logs r, counter r))"
  using assms by (simp add: applyDecision_def Let_def)

lemma length_initiate:
  "length (nextAvatars (initiateCase now avatarId prev cur up th c)) = length (avatars prev)"
  by (simp add: initiateCase_def initialLocals_def Let_def split: option.splits)

lemma length_move:
  "length (nextAvatars (moveCase fp avatarId prev cur up th c)) = length (avatars prev)"
  by (simp add: moveCase_def initialLocals_def Let_def split: option.splits)

lemma length_continue:
  "length (nextAvatars (continueCase now avatarId prev cur up th c)) = length (avatars prev)"
  by (simp add: continueCase_def initialLocals_def Let_def split: option.splits)

lemma length_disengage:
  "length (nextAvatars (disengageCase now avatarId prev cur up th c)) = length (avatars prev)"
  by (simp add: disengageCase_def initialLocals_def Let_def split: option.splits)

lemma length_nextAvatars:
  "length (nextAvatars (resolveAction fp now avatarId prev cur act up th c)) = length (avatars prev)"
  by (simp add: resolveAction_def length_initiate length_move length_continue length_disengage
       turnCase_def initialLocals_def Let_def)

lemma executeDecision_avatar:
  assumes "findIndex (\<lambda>a. av_id a = avatarId) (avatars prev) = Some i"
  shows "avatars (fst (executeDecision fp now oracle avatarId d cur c prev)) ! i =
     (let pre = resolveInteraction oracle avatarId d cur;
          r = resolveAction fp now avatarId prev (avatars prev ! i) (pre_action pre) (pre_params pre)
                (pre_thought pre) c
      in storeAvatar now prev (avatars prev ! i) (pre_params pre) r (nextAvatars r ! i))"
proof -
  have "i < length (avatars prev)" using findIndex_Some[OF assms] by simp
  then show ?thesis
    by (simp add: executeDecision_def applyDecision_found[OF assms] Let_def length_nextAvatars)
qed

lemma world0_find0:
  "findIndex (\<lambda>a. av_id a = generateId ''avatar'' 0) (avatars world0) = Some 0"
  by (simp add: world0_def createInitialState_def)

section \<open>Facts shared by the properties of the resolver\<close>

lemma executeDecision_stored:
  assumes "findIndex (\<lambda>a. av_id a = avatarId) (avatars prev) = Some i"
  shows "avatars (fst (executeDecision fp now oracle avatarId d cur c prev)) ! i =
     storeAvatar now prev (avatars prev ! i) (pre_params (resolveInteraction oracle avatarId d cur))
       (resolved fp now oracle avatarId d cur c prev i)
       (nextAvatars (resolved fp now oracle avatarId d cur c prev i) ! i)"
  by (simp add: executeDecision_avatar[OF assms] resolved_def Let_def)

lemma pre_interact:
  assumes "action d = ''interact_object''"
  shows "pre_action (resolveInteraction oracle avatarId d cur) = ''idle''"
    and "pre_params (resolveInteraction oracle avatarId d cur) = shortIdle"
    and "pre_thought (resolveInteraction oracle avatarId d cur) =
      (case (find (\<lambda>ob. Some (obj_id ob) = param targetId (parameters d)) (objects cur),
             find (\<lambda>a. av_id a = avatarId) (avatars cur)) of
         (Some ob, Some av) \<Rightarrow>
           (case oracle of
              Inr reaction \<Rightarrow> Some (''Interacted with '' @ tmpl (param targetId (parameters d)) @
                 ''. Note: '' @ dquote @ description ob @ dquote @ ''. Reaction: '' @ reaction)
            | Inl msg \<Rightarrow> Some (''Interacted with '' @ tmpl (param targetId (parameters d)) @
                 ''. Failed to process reaction: '' @ msg))
       | _ \<Rightarrow> annotate (initialThought d)
                (''(Target object '' @ tmpl (param targetId (parameters d)) @ '' not found)''))"
  using assms
  by (simp_all add: resolveInteraction_def Let_def split: option.splits sum.splits)

lemma pre_other:
  assumes "action d \<noteq> ''interact_object''"
  shows "pre_params (resolveInteraction oracle avatarId d cur) = parameters d"
    and "pre_thought (resolveInteraction oracle avatarId d cur) = initialThought d"
    and "pre_action (resolveInteraction oracle avatarId d cur) =
           (if action d = ''think'' then ''thinking'' else action d)"
  using assms by (simp_all add: resolveInteraction_def Let_def)

lemma resolve_idle:
  "resolveAction fp now avatarId prev cur ''idle'' up th c = initialLocals prev cur ''idle'' th c"
  by (simp add: resolveAction_def)

lemma clamped_short: "clampedDelayOf a shortIdle = 500"
  by (simp add: clampedDelayOf_def shortIdle_def param_def)

lemma store_fields:
  "nextDecisionTime (storeAvatar now prev cur up r a) = Some (now + clampedDelayOf cur up)"
  "currentAction (storeAvatar now prev cur up r a) = finalActionString (updateAction r)"
  "thought (storeAvatar now prev cur up r a) = finalThought r"
  "av_position (storeAvatar now prev cur up r a) = newPosition r"
  "orientation (storeAvatar now prev cur up r a) = newOrientation r"
  "conversationTarget (storeAvatar now prev cur up r a) = newConversationTarget r"
  "av_id (storeAvatar now prev cur up r a) = av_id a"
  by (simp_all add: storeAvatar_def)

lemma distance_less_iff:
  assumes "0 < r"
  shows "distance p q < r \<longleftrightarrow> (vx p - vx q) * (vx p - vx q) + (vy p - vy q) * (vy p - vy q) < r * r"
proof -
  have "sqrt (r * r) = r" using assms by simp
  then have "distance p q < r \<longleftrightarrow>
      sqrt ((vx p - vx q) * (vx p - vx q) + (vy p - vy q) * (vy p - vy q)) < sqrt (r * r)"
    by (simp add: distance_def Let_def)
  then show ?thesis by (simp only: real_sqrt_less_iff)
qed

lemma find_Some_in: "find P xs = Some x \<Longrightarrow> x \<in> set xs \<and> P x"
  by (auto simp: find_Some_iff)

lemma moveCase_result:
  fixes prev cur up avatarId fp
  defines "cand \<equiv> potentialPositionOf fp cur up"
  defines "blocked \<equiv> (\<not> isPointInBounds cand (boardSize (simulation prev)) \<or>
                      (\<exists>obs\<in>set (obstacles prev). hitsObstacle fp cand obs) \<or>
                      (\<exists>other\<in>set (avatars prev). hitsAvatar fp avatarId cand other))"
  shows "newPosition (moveCase fp avatarId prev cur up th c) = (if blocked then av_position cur else cand)"
    and "finalThought (moveCase fp avatarId prev cur up th c) =
           (if blocked then annotate th ''(Movement blocked)'' else th)"
    and "updateAction (moveCase fp avatarId prev cur up th c) = ''move''"
    and "newOrientation (moveCase fp avatarId prev cur up th c) = orientation cur"
    and "newConversationTarget (moveCase fp avatarId prev cur up th c) = conversationTarget cur"
proof -
  consider (out) "\<not> isPointInBounds cand (boardSize (simulation prev))"
    | (obstacle) ob where "isPointInBounds cand (boardSize (simulation prev))"
        "find (hitsObstacle fp cand) (obstacles prev) = Some ob"
    | (avatar) other where "isPointInBounds cand (boardSize (simulation prev))"
        "find (hitsObstacle fp cand) (obstacles prev) = None"
        "find (hitsAvatar fp avatarId cand) (avatars prev) = Some other"
    | (free) "isPointInBounds cand (boardSize (simulation prev))"
        "find (hitsObstacle fp cand) (obstacles prev) = None"
        "find (hitsAvatar fp avatarId cand) (avatars prev) = None"
    by (cases "find (hitsObstacle fp cand) (obstacles prev)";
        cases "find (hitsAvatar fp avatarId cand) (avatars prev)") blast+
  then have "newPosition (moveCase fp avatarId prev cur up th c) = (if blocked then av_position cur else cand)
    \<and> finalThought (moveCase fp avatarId prev cur up th c) =
           (if blocked then annotate th ''(Movement blocked)'' else th)
    \<and> updateAction (moveCase fp avatarId prev cur up th c) = ''move''
    \<and> newOrientation (moveCase fp avatarId prev cur up th c) = orientation cur
    \<and> newConversationTarget (moveCase fp avatarId prev cur up th c) = conversationTarget cur"
  proof cases
    case out
    then have "blocked" by (simp add: blocked_def)
    then show ?thesis using out
      by (simp add: moveCase_def Let_def initialLocals_def cand_def[symmetric])
  next
    case obstacle
    then have "blocked" using find_Some_in[OF obstacle(2)] by (auto simp: blocked_def)
    then show ?thesis using obstacle
      by (simp add: moveCase_def Let_def initialLocals_def cand_def[symmetric])
  next
    case avatar
    then have "blocked" using find_Some_in[OF avatar(3)] by (auto simp: blocked_def)
    then show ?thesis using avatar
      by (simp add: moveCase_def Let_def initialLocals_def cand_def[symmetric])
  next
    case free
    then have "\<not> blocked" by (simp add: blocked_def find_None_iff)
    then show ?thesis using free
      by (simp add: moveCase_def Let_def initialLocals_def cand_def[symmetric])
  qed
  then show "newPosition (moveCase fp avatarId prev cur up th c) = (if blocked then av_position cur else cand)"
    and "finalThought (moveCase fp avatarId prev cur up th c) =
           (if blocked then annotate th ''(Movement blocked)'' else th)"
    and "updateAction (moveCase fp avatarId prev cur up th c) = ''move''"
    and "newOrientation (moveCase fp avatarId prev cur up th c) = orientation cur"
    and "newConversationTarget (moveCase fp avatarId prev cur up th c) = conversationTarget cur"
    by simp_all
qed

lemma resolved_move:
  assumes "action d = ''move''"
  shows "resolved fp now oracle avatarId d cur c prev i =
     moveCase fp avatarId prev (avatars prev ! i) (parameters d) (initialThought d) c"
proof -
  have ne: "action d \<noteq> ''interact_object''" using assms by simp
  show ?thesis
    by (simp add: resolved_def Let_def pre_other[OF ne] assms resolveAction_def)
qed

lemma world0_avatar0:
  "av_position (avatars world0 ! 0) = \<lparr>vx = 50, vy = 50\<rparr>"
  "orientation (avatars world0 ! 0) = 0"
  "rateLimit (settings (avatars world0 ! 0)) = 1000"
  by (simp_all add: world0_def createInitialState_def INITIAL_AVATAR_SETTINGS_def)

lemma world0_board:
  "boardSize (simulation world0) = \<lparr>width = 500, height = 500\<rparr>"
  by (simp add: world0_def createInitialState_def)

lemma world0_obstacles:
  "obstacles world0 =
     [\<lparr>obs_id = generateId ''obstacle'' 3, obs_position = \<lparr>vx = 100, vy = 100\<rparr>,
       obs_size = \<lparr>vx = 10, vy = 150\<rparr>\<rparr>,
      \<lparr>obs_id = generateId ''obstacle'' 4, obs_position = \<lparr>vx = 300, vy = 300\<rparr>,
       obs_size = \<lparr>vx = 150, vy = 10\<rparr>\<rparr>]"
  by (simp add: world0_def createInitialState_def)

lemma world0_others:
  "other \<in> set (avatars world0) \<Longrightarrow> av_id other \<noteq> generateId ''avatar'' 0 \<Longrightarrow>
   av_position other = \<lparr>vx = 450, vy = 450\<rparr>"
  by (auto simp: world0_def createInitialState_def)

lemma world0_orb:
  "find (\<lambda>ob. obj_id ob = generateId ''object'' 2) (objects world0) =
     Some \<lparr>obj_id = generateId ''object'' 2, obj_position = \<lparr>vx = 250, vy = 250\<rparr>,
           description = ''A curious glowing orb.''\<rparr>"
  by (simp add: world0_def createInitialState_def eval_nat_numeral)

lemma world0_me:
  "find (\<lambda>a. av_id a = generateId ''avatar'' 0) (avatars world0) \<noteq> None"
  by (simp add: world0_def createInitialState_def)

lemma move10_fields:
  "action move10 = ''move''" "param p_distance (parameters move10) = Some 10"
  "initialThought move10 = None"
  by (simp_all add: move10_def param_def emptyParameters_def initialThought_def truthy_def)

lemma interactOrb_fields:
  "action interactOrb = ''interact_object''"
  "param targetId (parameters interactOrb) = Some (generateId ''object'' 2)"
  "param duration (parameters interactOrb) = Some 2000"
  by (simp_all add: interactOrb_def param_def emptyParameters_def)

lemma interact_timer:
  assumes found: "findIndex (\<lambda>a. av_id a = avatarId) (avatars prev) = Some i"
    and act: "action d = ''interact_object''"
  shows "nextDecisionTime (avatars (fst (executeDecision fp now oracle avatarId d cur c prev)) ! i) =
           Some (now + 500)"
  unfolding executeDecision_stored[OF found] store_fields
  by (simp add: pre_interact(2)[OF act] clamped_short)

section \<open>Facts about resizing the board\<close>

lemma resizeBoard_avatars:
  "avatars (resizeBoard now newSize prev) =
     map (\<lambda>a. a\<lparr>av_position :=
            \<lparr>vx = min (max (vx (av_position a)) 8) (max 100 (width newSize) - 8),
             vy = min (max (vy (av_position a)) 8) (max 100 (height newSize) - 8)\<rparr>\<rparr>) (avatars prev)"
  by (simp add: resizeBoard_def Let_def)

lemma resizeBoard_objects:
  "objects (resizeBoard now newSize prev) =
     map (\<lambda>ob. ob\<lparr>obj_position :=
            \<lparr>vx = min (max (vx (obj_position ob)) 5) (max 100 (width newSize) - 5),
             vy = min (max (vy (obj_position ob)) 5) (max 100 (height newSize) - 5)\<rparr>\<rparr>) (objects prev)"
  by (simp add: resizeBoard_def Let_def)

lemma resizeBoard_obstacles:
  "obstacles (resizeBoard now newSize prev) =
     filter (\<lambda>ob. vx (obs_position ob) < max 100 (width newSize) \<and>
                  vy (obs_position ob) < max 100 (height newSize))
       (map (\<lambda>ob. ob\<lparr>obs_position :=
            \<lparr>vx = min (max (vx (obs_position ob)) 0) (max 100 (width newSize) - vx (obs_size ob)),
             vy = min (max (vy (obs_position ob)) 0) (max 100 (height newSize) - vy (obs_size ob))\<rparr>\<rparr>)
          (obstacles prev))"
  by (simp add: resizeBoard_def Let_def)

lemma resizeBoard_size:
  "boardSize (simulation (resizeBoard now newSize prev)) =
     \<lparr>width = max 100 (width newSize), height = max 100 (height newSize)\<rparr>"
  by (simp add: resizeBoard_def Let_def)

lemma vector_eq_iff: "(p :: Vector2) = q \<longleftrightarrow> vx p = vx q \<and> vy p = vy q"
  by (cases p, cases q) simp

lemma obstacle_same_position:
  assumes "px = vx (obs_position ob)" "py = vy (obs_position ob)"
  shows "ob\<lparr>obs_position := \<lparr>vx = px, vy = py\<rparr>\<rparr> = ob"
  using assms by (cases ob, cases "obs_position ob") simp

lemma clamp_id: "lo \<le> v \<Longrightarrow> v \<le> hi \<Longrightarrow> min (max v lo) hi = (v::real)"
  by simp

lemma clamp_inside:
  fixes v sz W :: real
  assumes "sz \<le> W"
  shows "0 \<le> min (max v 0) (W - sz) \<and> min (max v 0) (W - sz) + sz \<le> W"
  using assms by (auto simp: min_def max_def)

lemma world0_positions:
  "map av_position (avatars world0) = [\<lparr>vx = 50, vy = 50\<rparr>, \<lparr>vx = 450, vy = 450\<rparr>]"
  "map obj_position (objects world0) = [\<lparr>vx = 250, vy = 250\<rparr>]"
  by (simp_all add: world0_def createInitialState_def)

lemma world0_first:
  "0 < length (avatars world0)" "av_position (avatars world0 ! 0) = \<lparr>vx = 50, vy = 50\<rparr>"
  "0 < length (objects world0)" "obj_position (objects world0 ! 0) = \<lparr>vx = 250, vy = 250\<rparr>"
  by (simp_all add: world0_def createInitialState_def)

lemma cornerObject_facts:
  "boardSize (simulation worldWithCornerObject) = \<lparr>width = 500, height = 500\<rparr>"
  "map obj_position (objects worldWithCornerObject) = [\<lparr>vx = 250, vy = 250\<rparr>, \<lparr>vx = 2, vy = 2\<rparr>]"
  by (simp_all add: worldWithCornerObject_def addObject_def Let_def world0_board world0_positions)

lemma world0_resized_100:
  "obstacles (resizeBoard 1 \<lparr>width = 100, height = 100\<rparr> world0) =
     [\<lparr>obs_id = generateId ''obstacle'' 3, obs_position = \<lparr>vx = 90, vy = -50\<rparr>,
       obs_size = \<lparr>vx = 10, vy = 150\<rparr>\<rparr>,
      \<lparr>obs_id = generateId ''obstacle'' 4, obs_position = \<lparr>vx = -50, vy = 90\<rparr>,
       obs_size = \<lparr>vx = 150, vy = 10\<rparr>\<rparr>]"
  by (simp add: resizeBoard_obstacles world0_obstacles)

lemma world0_resized_300_400:
  "obstacles (resizeBoard 1 \<lparr>width = 300, height = 400\<rparr> world0) =
     [\<lparr>obs_id = generateId ''obstacle'' 3, obs_position = \<lparr>vx = 100, vy = 100\<rparr>,
       obs_size = \<lparr>vx = 10, vy = 150\<rparr>\<rparr>,
      \<lparr>obs_id = generateId ''obstacle'' 4, obs_position = \<lparr>vx = 150, vy = 300\<rparr>,
       obs_size = \<lparr>vx = 150, vy = 10\<rparr>\<rparr>]"
  by (simp add: resizeBoard_obstacles world0_obstacles)

section \<open>Facts about the perception engine\<close>


lemma wrapDown_gt: "- pi < a \<Longrightarrow> - pi < wrapDown a"
proof (induction a rule: wrapDown.induct)
  case (1 a)
  show ?case
  proof (cases "a > pi")
    case True
    then have "- pi < a - 2 * pi" by simp
    with 1 True show ?thesis by (subst wrapDown.simps) simp
  next
    case False
    with 1 show ?thesis by (subst wrapDown.simps) simp
  qed
qed

lemma wrapDown_id: "a \<le> pi \<Longrightarrow> wrapDown a = a"
  by (subst wrapDown.simps) simp








lemma lineOfSight_never_blocked: "lineOfSightBlocked avatar d rel obstacleList = False"
  by (induction obstacleList) (simp_all add: Let_def)

lemma isVisible_obstacles: "isVisible avatar obstacleList1 p = isVisible avatar obstacleList2 p"
  by (simp add: isVisible_def Let_def lineOfSight_never_blocked)






section \<open>Identifiers and the avatar floor\<close>

lemma digit_char_inj: "d < 10 \<Longrightarrow> e < 10 \<Longrightarrow> digit_char d = digit_char e \<Longrightarrow> d = e"
proof -
  assume "d < 10" "e < 10" and eq: "digit_char d = digit_char e"
  then have "d \<in> {0,1,2,3,4,5,6,7,8,9}" "e \<in> {0,1,2,3,4,5,6,7,8,9}" by auto
  with eq show ?thesis by (auto simp: digit_char_def)
qed

lemma show_nat_nonempty: "show_nat n \<noteq> []"
  by (subst show_nat.simps) simp

lemma show_nat_inj: "show_nat m = show_nat n \<Longrightarrow> m = n"
proof (induction m arbitrary: n rule: show_nat.induct)
  case (1 m)
  show ?case
  proof (cases "m < 10")
    case True
    show ?thesis
    proof (cases "n < 10")
      case n: True
      from "1.prems" True n have "digit_char m = digit_char n"
        by (simp add: show_nat.simps[of m] show_nat.simps[of n])
      then show ?thesis using True n by (rule digit_char_inj[rotated 2])
    next
      case n: False
      from "1.prems" True n have "[digit_char m] = show_nat (n div 10) @ [digit_char (n mod 10)]"
        by (simp add: show_nat.simps[of m] show_nat.simps[of n])
      then have "show_nat (n div 10) = []" by simp
      then show ?thesis using show_nat_nonempty by blast
    qed
  next
    case False
    show ?thesis
    proof (cases "n < 10")
      case n: True
      from "1.prems" False n have "show_nat (m div 10) @ [digit_char (m mod 10)] = [digit_char n]"
        by (simp add: show_nat.simps[of m] show_nat.simps[of n])
      then have "show_nat (m div 10) = []" by simp
      then show ?thesis using show_nat_nonempty by blast
    next
      case n: False
      from "1.prems" False n
      have "show_nat (m div 10) @ [digit_char (m mod 10)] = show_nat (n div 10) @ [digit_char (n mod 10)]"
        by (simp add: show_nat.simps[of m] show_nat.simps[of n])
      then have a: "show_nat (m div 10) = show_nat (n div 10)"
        and b: "digit_char (m mod 10) = digit_char (n mod 10)" by simp_all
      from "1.IH"[OF False a] have q: "m div 10 = n div 10" .
      have r: "m mod 10 = n mod 10" by (rule digit_char_inj[OF _ _ b]) simp_all
      have "m = 10 * (m div 10) + m mod 10" by simp
      also have "\<dots> = 10 * (n div 10) + n mod 10" by (simp only: q r)
      also have "\<dots> = n" by simp
      finally show ?thesis .
    qed
  qed
qed

lemma generateId_inj: "generateId p m = generateId p n \<longleftrightarrow> m = n"
  using show_nat_inj by (auto simp: generateId_def)

lemma generateId_nonempty: "generateId ''avatar'' n \<noteq> []"
  by (simp add: generateId_def)

lemma ids_initiate:
  "map av_id (nextAvatars (initiateCase now avatarId prev cur up th c)) = map av_id (avatars prev)"
  by (simp add: initiateCase_def initialLocals_def Let_def comp_def split: option.splits)

lemma ids_move:
  "map av_id (nextAvatars (moveCase fp avatarId prev cur up th c)) = map av_id (avatars prev)"
  by (simp add: moveCase_def initialLocals_def Let_def split: option.splits)

lemma ids_continue:
  "map av_id (nextAvatars (continueCase now avatarId prev cur up th c)) = map av_id (avatars prev)"
  by (simp add: continueCase_def initialLocals_def Let_def split: option.splits)

lemma ids_disengage:
  "map av_id (nextAvatars (disengageCase now avatarId prev cur up th c)) = map av_id (avatars prev)"
  by (simp add: disengageCase_def initialLocals_def Let_def comp_def split: option.splits)

lemma ids_resolveAction:
  "map av_id (nextAvatars (resolveAction fp now avatarId prev cur act up th c)) = map av_id (avatars prev)"
  by (simp add: resolveAction_def ids_initiate ids_move ids_continue ids_disengage
       turnCase_def initialLocals_def Let_def)

lemma counter_initiate:
  "c \<le> counter (initiateCase now avatarId prev cur up th c)"
  by (simp add: initiateCase_def initialLocals_def Let_def split: option.splits)

lemma counter_move:
  "counter (moveCase fp avatarId prev cur up th c) = c"
  by (simp add: moveCase_def initialLocals_def Let_def split: option.splits)

lemma counter_continue:
  "counter (continueCase now avatarId prev cur up th c) = c"
  by (simp add: continueCase_def initialLocals_def Let_def split: option.splits)

lemma counter_disengage:
  "counter (disengageCase now avatarId prev cur up th c) = c"
  by (simp add: disengageCase_def initialLocals_def Let_def split: option.splits)

lemma counter_resolveAction:
  "c \<le> counter (resolveAction fp now avatarId prev cur act up th c)"
  by (simp add: resolveAction_def counter_initiate counter_move counter_continue counter_disengage
       turnCase_def initialLocals_def Let_def)

lemma map_update_same:
  assumes "f y = f (xs ! i)"
  shows "map f (xs[i := y]) = map f xs"
proof (cases "i < length xs")
  case True
  then have "(map f xs)[i := f (xs ! i)] = map f xs"
    by (metis list_update_id nth_map)
  then show ?thesis by (simp add: map_update assms)
next
  case False
  then have "length xs \<le> i" by simp
  then have "xs[i := y] = xs" by (rule list_update_beyond)
  then show ?thesis by simp
qed

lemma executeDecision_ids:
  "map av_id (avatars (fst (executeDecision fp now oracle avatarId d cur c prev))) =
     map av_id (avatars prev)"
proof (cases "findIndex (\<lambda>a. av_id a = avatarId) (avatars prev)")
  case None
  then show ?thesis by (simp add: executeDecision_def applyDecision_def Let_def)
next
  case (Some i)
  show ?thesis
    by (simp add: executeDecision_def applyDecision_found[OF Some] Let_def
        map_update_same store_fields ids_resolveAction)
qed

lemma executeDecision_counter:
  "c \<le> snd (executeDecision fp now oracle avatarId d cur c prev)"
proof (cases "findIndex (\<lambda>a. av_id a = avatarId) (avatars prev)")
  case None
  then show ?thesis by (simp add: executeDecision_def applyDecision_def Let_def)
next
  case (Some i)
  show ?thesis
    by (simp add: executeDecision_def applyDecision_found[OF Some] Let_def counter_resolveAction)
qed

lemma removeAvatar_avatars:
  "avatars (removeAvatar now rid s) =
     (if length (avatars s) \<le> 2 then avatars s
      else map (\<lambda>a. if av_id a \<in> set (concat (map (\<lambda>c. filter (\<lambda>p. p \<noteq> rid)
                                   [fst (participants c), snd (participants c)])
                         (filter (endsWith rid) (conversations s))))
                     then a\<lparr>conversationTarget := None, currentAction := None\<rparr> else a)
             (filter (\<lambda>a. av_id a \<noteq> rid) (avatars s)))"
  by (simp add: removeAvatar_def Let_def)

lemma removeAvatar_ids:
  "map av_id (avatars (removeAvatar now rid s)) =
     (if length (avatars s) \<le> 2 then map av_id (avatars s)
      else filter (\<lambda>i. i \<noteq> rid) (map av_id (avatars s)))"
  by (simp add: removeAvatar_avatars comp_def filter_map if_distrib[of av_id] cong: if_cong)

lemma distinct_remove_length:
  assumes "distinct xs"
  shows "length xs \<le> Suc (length (filter (\<lambda>i. i \<noteq> r) xs))"
proof -
  have "r \<notin> set ys \<Longrightarrow> filter (\<lambda>i. i \<noteq> r) ys = ys" for ys
    by (induction ys) auto
  then show ?thesis using assms by (induction xs) auto
qed

lemma countInv_ids:
  assumes "countInv s c" "map av_id (avatars s') = map av_id (avatars s)" "c \<le> c'"
  shows "countInv s' c'"
proof -
  have "length (avatars s') = length (avatars s)" using assms(2) by (metis length_map)
  then show ?thesis using assms unfolding countInv_def by (metis less_le_trans)
qed

lemma countInv_init: "countInv (fst (createInitialState now c)) (snd (createInitialState now c))"
proof -
  have "\<exists>k<c + 5. generateId ''avatar'' c = generateId ''avatar'' k" by (rule exI[of _ c]) simp
  moreover have "\<exists>k<c + 5. generateId ''avatar'' (Suc c) = generateId ''avatar'' k"
    by (rule exI[of _ "Suc c"]) simp
  ultimately show ?thesis
    by (simp add: countInv_def createInitialState_def generateId_inj)
qed

lemma countInv_same:
  assumes "countInv s c" "avatars s' = avatars s" "c \<le> c'"
  shows "countInv s' c'"
  by (rule countInv_ids[OF assms(1)]) (simp_all add: assms)

lemma countInv_addAvatar:
  assumes "countInv s c"
  shows "countInv (fst (addAvatar now rx ry ro c s)) (snd (addAvatar now rx ry ro c s))"
proof (cases "length (avatars s) \<ge> 10")
  case True
  then show ?thesis using assms by (simp add: addAvatar_def countInv_def)
next
  case False
  have fresh: "generateId ''avatar'' c \<notin> set (map av_id (avatars s))"
  proof
    assume "generateId ''avatar'' c \<in> set (map av_id (avatars s))"
    then obtain k where "k < c" "generateId ''avatar'' c = generateId ''avatar'' k"
      using assms unfolding countInv_def by blast
    then show False by (simp add: generateId_inj)
  qed
  have old: "\<forall>i\<in>set (map av_id (avatars s)). \<exists>k<Suc c. i = generateId ''avatar'' k"
    using assms unfolding countInv_def by (meson less_SucI)
  have new: "\<exists>k<Suc c. generateId ''avatar'' c = generateId ''avatar'' k" by blast
  show ?thesis using False assms fresh old new
    by (simp add: addAvatar_def Let_def countInv_def)
qed

lemma countInv_removeAvatar:
  assumes "countInv s c"
  shows "countInv (removeAvatar now rid s) c"
proof (cases "length (avatars s) \<le> 2")
  case True
  then show ?thesis using assms by (simp add: countInv_def removeAvatar_ids removeAvatar_avatars)
next
  case False
  have d: "distinct (map av_id (avatars s))" using assms by (simp add: countInv_def)
  have ids: "map av_id (avatars (removeAvatar now rid s)) = filter (\<lambda>i. i \<noteq> rid) (map av_id (avatars s))"
    using False by (simp add: removeAvatar_ids)
  have "length (map av_id (avatars s)) \<le> Suc (length (filter (\<lambda>i. i \<noteq> rid) (map av_id (avatars s))))"
    by (rule distinct_remove_length[OF d])
  then have "length (avatars s) \<le> Suc (length (map av_id (avatars (removeAvatar now rid s))))"
    by (simp add: ids)
  then have len: "2 \<le> length (avatars (removeAvatar now rid s))" using False by simp
  have dis: "distinct (map av_id (avatars (removeAvatar now rid s)))"
    unfolding ids using d by simp
  have gen: "\<forall>i\<in>set (map av_id (avatars (removeAvatar now rid s))). \<exists>k<c. i = generateId ''avatar'' k"
    unfolding ids using assms by (auto simp: countInv_def)
  show ?thesis unfolding countInv_def using len dis gen by blast
qed

lemma map_preserving:
  assumes "\<And>a. f (g a) = f a"
  shows "map f (map g xs) = map f xs"
  by (simp add: assms)

lemma updateAvatarSettings_ids:
  "map av_id (avatars (updateAvatarSettings now avatarId u s)) = map av_id (avatars s)"
  unfolding updateAvatarSettings_def addLog_fields by simp

lemma resizeBoard_ids:
  "map av_id (avatars (resizeBoard now newSize s)) = map av_id (avatars s)"
  unfolding resizeBoard_avatars by simp

lemma reachable_countInv: "reachable s c \<Longrightarrow> countInv s c"
proof (induction rule: reachable.induct)
  case (initial now c)
  show ?case by (rule countInv_init)
next
  case (reset s c now)
  have "countInv (fst (createInitialState now c)) (snd (createInitialState now c))"
    by (rule countInv_init)
  then show ?case
    by (rule countInv_same) (simp_all add: resetSimulation_def split_beta)
next
  case (counter s c c')
  show ?case using counter.hyps by (intro countInv_same[OF counter.IH]) simp_all
next
  case (logged s c now call)
  show ?case using logged.hyps by (intro countInv_same[OF logged.IH]) simp_all
next
  case (decision s c now orc avatarId d cur)
  show ?case
    by (rule countInv_ids[OF decision.IH]) (rule executeDecision_ids, rule executeDecision_counter)
next
  case (settings s c now u)
  show ?case using settings.hyps by (intro countInv_same[OF settings.IH]) (simp_all add: updateSimulationSettings_def)
next
  case (toggle s c)
  show ?case using toggle.hyps by (intro countInv_same[OF toggle.IH]) (simp_all add: toggleSimulation_def)
next
  case (pause s c cur)
  show ?case using pause.hyps by (intro countInv_same[OF pause.IH]) (simp_all add: pauseSimulation_def)
next
  case (avatarAdded s c now rx ry ro)
  show ?case by (rule countInv_addAvatar[OF avatarAdded.IH])
next
  case (avatarRemoved s c now avatarId)
  show ?case by (rule countInv_removeAvatar[OF avatarRemoved.IH])
next
  case (avatarSettings s c now avatarId u)
  show ?case
    by (rule countInv_ids[OF avatarSettings.IH]) (rule updateAvatarSettings_ids, simp)
next
  case (obstacleAdded s c now pos sz)
  show ?case using obstacleAdded.hyps by (intro countInv_same[OF obstacleAdded.IH]) (simp_all add: addObstacle_def Let_def)
next
  case (obstacleRemoved s c now obstacleId)
  show ?case using obstacleRemoved.hyps by (intro countInv_same[OF obstacleRemoved.IH]) (simp_all add: removeObstacle_def)
next
  case (objectAdded s c now pos)
  show ?case using objectAdded.hyps by (intro countInv_same[OF objectAdded.IH]) (simp_all add: addObject_def Let_def)
next
  case (objectEdited s c now objectId desc)
  show ?case using objectEdited.hyps by (intro countInv_same[OF objectEdited.IH]) (simp_all add: updateObjectDescription_def)
next
  case (objectRemoved s c now objectId)
  show ?case using objectRemoved.hyps by (intro countInv_same[OF objectRemoved.IH]) (simp_all add: removeObject_def)
next
  case (resized s c now newSize)
  show ?case
    by (rule countInv_ids[OF resized.IH]) (rule resizeBoard_ids, simp)
qed

lemma removeAvatar_rejected:
  assumes "length (avatars s) \<le> 2"
  shows "removeAvatar now rid s =
     s\<lparr>simulationLogs := slice_last 100 (simulationLogs s) @ [removalRejected now rid]\<rparr>"
  using assms by (simp add: removeAvatar_def addLog_def removalRejected_def)

lemma world0_reachable: "reachable world0 5"
proof -
  have "reachable (fst (createInitialState 1 0)) (snd (createInitialState 1 0))"
    by (rule reachable.initial) simp
  then show ?thesis by (simp add: world0_def createInitialState_def)
qed

lemma world0_two: "length (avatars world0) = 2"
  by (simp add: world0_def createInitialState_def)

lemma world0_logs: "length (simulationLogs world0) = 1"
  by (simp add: world0_def createInitialState_def)

section \<open>Movement and interaction in the resolver\<close>

lemma distance64_exact: "distance64 exactArithmetic p q = distance p q"
  by (simp add: distance64_def distance_def exactArithmetic_def Let_def)

lemma initialThought_other:
  "action d \<noteq> ''think'' \<Longrightarrow>
   initialThought d = (case d_thought d of None \<Rightarrow> None | Some t \<Rightarrow> if t = [] then None else Some t)"
  by (simp add: initialThought_def truthy_def split: option.splits)

lemma annotate_cases:
  "annotate th note =
     Some ((case th of None \<Rightarrow> [] | Some t \<Rightarrow> if t = [] then [] else t @ '' '') @ note)"
  by (simp add: annotate_def truthy_def tmpl_def split: option.splits)

lemma move_stored:
  assumes found: "findIndex (\<lambda>a. av_id a = avatarId) (avatars prev) = Some i"
    and act: "action d = ''move''"
  shows "av_position (avatars (fst (executeDecision fp now oracle avatarId d cur c prev)) ! i) =
       (if \<not> isPointInBounds (potentialPositionOf fp (avatars prev ! i) (parameters d))
                (boardSize (simulation prev)) \<or>
           (\<exists>obs\<in>set (obstacles prev).
              hitsObstacle fp (potentialPositionOf fp (avatars prev ! i) (parameters d)) obs) \<or>
           (\<exists>other\<in>set (avatars prev).
              hitsAvatar fp avatarId (potentialPositionOf fp (avatars prev ! i) (parameters d)) other)
        then av_position (avatars prev ! i)
        else potentialPositionOf fp (avatars prev ! i) (parameters d))"
  unfolding executeDecision_stored[OF found] store_fields resolved_move[OF act] moveCase_result
  by (rule refl)

lemma exact_candidate_move10:
  assumes "av_position me = \<lparr>vx = 50, vy = 50\<rparr>" "orientation me = 0"
  shows "potentialPositionOf exactArithmetic me (parameters move10) = \<lparr>vx = 60, vy = 50\<rparr>"
  by (simp add: potentialPositionOf_def Let_def move10_fields exactArithmetic_def assms)

lemma hitsObstacle_exact:
  "hitsObstacle exactArithmetic p obs \<longleftrightarrow>
     distance p \<lparr>vx = max (vx (obs_position obs)) (min (vx p) (vx (obs_position obs) + vx (obs_size obs))),
                 vy = max (vy (obs_position obs)) (min (vy p) (vy (obs_position obs) + vy (obs_size obs)))\<rparr>
     < 8"
  by (simp add: hitsObstacle_def Let_def distance64_exact) (simp add: exactArithmetic_def)

lemma hitsAvatar_exact:
  "hitsAvatar exactArithmetic avatarId p other \<longleftrightarrow>
     av_id other \<noteq> avatarId \<and> distance p (av_position other) < 16"
  by (simp add: hitsAvatar_def distance64_exact)

lemma nearObstacle_facts:
  "avatars worldWithNearObstacle = avatars world0"
  "boardSize (simulation worldWithNearObstacle) = \<lparr>width = 500, height = 500\<rparr>"
  "obstacles worldWithNearObstacle = obstacles world0 @
     [\<lparr>obs_id = generateId ''obstacle'' 5, obs_position = \<lparr>vx = 68, vy = 40\<rparr>,
       obs_size = \<lparr>vx = 20, vy = 20\<rparr>\<rparr>]"
  by (simp_all add: worldWithNearObstacle_def addObstacle_def Let_def world0_board)

lemma nearObstacle_find0:
  "findIndex (\<lambda>a. av_id a = generateId ''avatar'' 0) (avatars worldWithNearObstacle) = Some 0"
  by (simp add: nearObstacle_facts world0_find0)

text \<open>
  Scenario A does not depend on the rounding: every arithmetic that represents the integers
  up to 2^53 exactly and rounds monotonically, with cos 0 = 1 and sin 0 = 0 (as IEEE 754
  doubles do), moves the avatar to (60, 50).
\<close>

lemma scenario_A_in_doubles:
  assumes ints: "\<And>n::int. \<bar>n\<bar> \<le> 2 ^ 53 \<Longrightarrow> fl fp (of_int n) = of_int n"
    and mono: "\<And>u v. u \<le> v \<Longrightarrow> fl fp u \<le> fl fp v"
    and cos0: "fcos fp 0 = 1" and sin0: "fsin fp 0 = 0"
  shows "av_position (avatars (fst (executeDecision fp now oracle (generateId ''avatar'' 0)
                               move10 cur c world0)) ! 0) = \<lparr>vx = 60, vy = 50\<rparr>"
proof -
  have bound: "(1000000::int) \<le> 2 ^ 53" by simp
  have small: "fl fp (of_int n) = of_int n" if "\<bar>n\<bar> \<le> 1000000" for n :: int
    by (rule ints) (rule order_trans[OF that bound])
  have pos: "fl fp (numeral n) = numeral n" if "numeral n \<le> (1000000::int)" for n
  proof -
    have "\<bar>numeral n :: int\<bar> \<le> 1000000" using that by simp
    from small[OF this] show ?thesis by simp
  qed
  have neg: "fl fp (- numeral n) = - numeral n" if "numeral n \<le> (1000000::int)" for n
  proof -
    have "\<bar>- numeral n :: int\<bar> \<le> 1000000" using that by simp
    from small[OF this] show ?thesis by simp
  qed
  have f0: "fl fp 0 = 0" using small[of 0] by simp
  have far: "\<not> fl fp (sqrt v) < r" if "r * r \<le> v" "fl fp r = r" "0 \<le> r" for v r
  proof -
    have "r \<le> sqrt v" using that(1,3) by (simp add: real_le_rsqrt power2_eq_square)
    then have "fl fp r \<le> fl fp (sqrt v)" by (rule mono)
    then show ?thesis using that(2) by simp
  qed
  have cand: "potentialPositionOf fp (avatars world0 ! 0) (parameters move10) = \<lparr>vx = 60, vy = 50\<rparr>"
    by (simp add: potentialPositionOf_def Let_def move10_fields world0_avatar0 f0 pos cos0 sin0)
  have inb: "isPointInBounds \<lparr>vx = 60, vy = 50\<rparr> (boardSize (simulation world0))"
    by (simp add: isPointInBounds_def world0_board)
  have o1: "\<not> fl fp (sqrt 4100) < 8" by (rule far) (simp_all add: pos)
  have o2: "\<not> fl fp (sqrt 120100) < 8" by (rule far) (simp_all add: pos)
  have a1: "\<not> fl fp (sqrt 312100) < 16" by (rule far) (simp_all add: pos)
  have obs: "\<not> (\<exists>obs\<in>set (obstacles world0). hitsObstacle fp \<lparr>vx = 60, vy = 50\<rparr> obs)"
    by (simp add: world0_obstacles hitsObstacle_def distance64_def Let_def pos neg o1 o2)
  have d: "\<not> distance64 fp \<lparr>vx = 60, vy = 50\<rparr> \<lparr>vx = 450, vy = 450\<rparr> < 16"
    by (simp add: distance64_def Let_def pos neg a1)
  have avs: "\<not> (\<exists>other\<in>set (avatars world0).
      hitsAvatar fp (generateId ''avatar'' 0) \<lparr>vx = 60, vy = 50\<rparr> other)"
    using world0_others d by (auto simp: hitsAvatar_def)
  show ?thesis
    unfolding move_stored[OF world0_find0 move10_fields(1)] cand
    using inb obs avs by simp
qed

text \<open>
  The same at the boundary: with an obstacle whose closest point is exactly 8 from the
  candidate, the rounded distance is exactly 8 and the strict comparison accepts the move.
\<close>

lemma boundary_in_doubles:
  assumes ints: "\<And>n::int. \<bar>n\<bar> \<le> 2 ^ 53 \<Longrightarrow> fl fp (of_int n) = of_int n"
    and mono: "\<And>u v. u \<le> v \<Longrightarrow> fl fp u \<le> fl fp v"
    and cos0: "fcos fp 0 = 1" and sin0: "fsin fp 0 = 0"
  shows "av_position (avatars (fst (executeDecision fp now oracle (generateId ''avatar'' 0)
                               move10 cur c worldWithNearObstacle)) ! 0) = \<lparr>vx = 60, vy = 50\<rparr>"
proof -
  have bound: "(1000000::int) \<le> 2 ^ 53" by simp
  have small: "fl fp (of_int n) = of_int n" if "\<bar>n\<bar> \<le> 1000000" for n :: int
    by (rule ints) (rule order_trans[OF that bound])
  have pos: "fl fp (numeral n) = numeral n" if "numeral n \<le> (1000000::int)" for n
  proof -
    have "\<bar>numeral n :: int\<bar> \<le> 1000000" using that by simp
    from small[OF this] show ?thesis by simp
  qed
  have neg: "fl fp (- numeral n) = - numeral n" if "numeral n \<le> (1000000::int)" for n
  proof -
    have "\<bar>- numeral n :: int\<bar> \<le> 1000000" using that by simp
    from small[OF this] show ?thesis by simp
  qed
  have f0: "fl fp 0 = 0" using small[of 0] by simp
  have far: "\<not> fl fp (sqrt v) < r" if "r * r \<le> v" "fl fp r = r" "0 \<le> r" for v r
  proof -
    have "r \<le> sqrt v" using that(1,3) by (simp add: real_le_rsqrt power2_eq_square)
    then have "fl fp r \<le> fl fp (sqrt v)" by (rule mono)
    then show ?thesis using that(2) by simp
  qed
  have cand: "potentialPositionOf fp (avatars worldWithNearObstacle ! 0) (parameters move10)
      = \<lparr>vx = 60, vy = 50\<rparr>"
    by (simp add: potentialPositionOf_def Let_def move10_fields nearObstacle_facts world0_avatar0
        f0 pos cos0 sin0)
  have inb: "isPointInBounds \<lparr>vx = 60, vy = 50\<rparr> (boardSize (simulation worldWithNearObstacle))"
    by (simp add: isPointInBounds_def nearObstacle_facts)
  have o1: "\<not> fl fp (sqrt 4100) < 8" by (rule far) (simp_all add: pos)
  have o2: "\<not> fl fp (sqrt 120100) < 8" by (rule far) (simp_all add: pos)
  have o3: "\<not> fl fp (sqrt 64) < 8" by (rule far) (simp_all add: pos)
  have a1: "\<not> fl fp (sqrt 312100) < 16" by (rule far) (simp_all add: pos)
  have obs: "\<not> (\<exists>obs\<in>set (obstacles worldWithNearObstacle). hitsObstacle fp \<lparr>vx = 60, vy = 50\<rparr> obs)"
    by (simp add: nearObstacle_facts world0_obstacles hitsObstacle_def distance64_def Let_def
        pos neg f0 o1 o2 o3)
  have d: "\<not> distance64 fp \<lparr>vx = 60, vy = 50\<rparr> \<lparr>vx = 450, vy = 450\<rparr> < 16"
    by (simp add: distance64_def Let_def pos neg a1)
  have avs: "\<not> (\<exists>other\<in>set (avatars worldWithNearObstacle).
      hitsAvatar fp (generateId ''avatar'' 0) \<lparr>vx = 60, vy = 50\<rparr> other)"
    using world0_others d by (auto simp: hitsAvatar_def nearObstacle_facts)
  show ?thesis
    unfolding move_stored[OF nearObstacle_find0 move10_fields(1)] cand
    using inb obs avs by simp
qed

text \<open>
  A candidate that the rounded arithmetic puts off the board is rejected, however small the
  excess: an avatar on the left edge that faces 270 degrees stays where it is when the
  rounded cosine of its heading is negative.
\<close>

lemma move_off_board_stays:
  assumes found: "findIndex (\<lambda>a. av_id a = avatarId) (avatars prev) = Some i"
    and act: "action d = ''move''"
    and off: "vx (potentialPositionOf fp (avatars prev ! i) (parameters d)) < 0"
  shows "av_position (avatars (fst (executeDecision fp now oracle avatarId d cur c prev)) ! i) =
           av_position (avatars prev ! i)"
  unfolding move_stored[OF found act] using off by (simp add: isPointInBounds_def)

lemma negative_cosine_leaves_board:
  assumes pos: "av_position me = \<lparr>vx = 0, vy = 50\<rparr>" and ori: "orientation me = 270"
    and neg: "fl fp (10 * fcos fp (fl fp (270 * fl fp (fl fp pi / 180)))) < 0"
    and idem: "\<And>u. fl fp (fl fp u) = fl fp u"
  shows "vx (potentialPositionOf fp me (parameters move10)) < 0"
  using neg by (simp add: potentialPositionOf_def Let_def move10_fields pos ori idem)

lemma interact_stored:
  assumes found: "findIndex (\<lambda>a. av_id a = avatarId) (avatars prev) = Some i"
    and act: "action d = ''interact_object''"
  shows "currentAction (avatars (fst (executeDecision fp now oracle avatarId d cur c prev)) ! i) = None"
    and "thought (avatars (fst (executeDecision fp now oracle avatarId d cur c prev)) ! i) =
           pre_thought (resolveInteraction oracle avatarId d cur)"
proof -
  have r: "resolved fp now oracle avatarId d cur c prev i =
      initialLocals prev (avatars prev ! i) ''idle''
        (pre_thought (resolveInteraction oracle avatarId d cur)) c"
    by (simp add: resolved_def Let_def pre_interact(1)[OF act] resolve_idle)
  show "currentAction (avatars (fst (executeDecision fp now oracle avatarId d cur c prev)) ! i) = None"
    unfolding executeDecision_stored[OF found] store_fields r
    by (simp add: initialLocals_def finalActionString_def)
  show "thought (avatars (fst (executeDecision fp now oracle avatarId d cur c prev)) ! i) =
           pre_thought (resolveInteraction oracle avatarId d cur)"
    unfolding executeDecision_stored[OF found] store_fields r
    by (simp add: initialLocals_def)
qed

lemma interactOrbOtherThought_fields:
  "action interactOrbOtherThought = ''interact_object''"
  "param targetId (parameters interactOrbOtherThought) = Some (generateId ''object'' 2)"
  "d_thought interactOrbOtherThought = Some ''I should leave.''"
  "d_thought interactOrb = Some ''What is that orb?''"
  by (simp_all add: interactOrbOtherThought_def interactOrb_def param_def emptyParameters_def)

lemma objectId2: "generateId ''object'' 2 = ''object-2''"
  by (simp add: generateId_def show_nat.simps digit_char_def)

section \<open>Turning\<close>

lemma pre_turn:
  "action d = ''turn'' \<Longrightarrow> resolveInteraction oracle avatarId d cur =
     \<lparr>pre_action = ''turn'', pre_params = parameters d, pre_thought = initialThought d,
      pre_logs = [decidedLog avatarId d]\<rparr>"
  by (simp add: resolveInteraction_def Let_def)

lemma validate_turn:
  "action d = ''turn'' \<Longrightarrow> param p_angle (parameters d) = Some a \<Longrightarrow>
   action (validateDecision d) = ''turn'' \<and>
   param p_angle (parameters (validateDecision d)) = Some (js_round (max (-180) (min 180 a) / 30) * 30)"
  by (auto simp: validateDecision_def param_def Let_def split: option.splits)

lemma turn_orientation:
  assumes found: "findIndex (\<lambda>a. av_id a = avatarId) (avatars prev) = Some i"
    and turn: "action d = ''turn''"
  shows "orientation (avatars (fst (executeDecision fp now oracle avatarId d cur c prev)) ! i) =
     js_rem (orientation (avatars prev ! i) +
             js_round ((case param p_angle (parameters d) of None \<Rightarrow> 0 | Some a \<Rightarrow> a) / 30) * 30 + 360) 360"
  by (simp add: executeDecision_avatar[OF found] pre_turn[OF turn] Let_def storeAvatar_def
      resolveAction_def turnCase_def initialLocals_def)

lemma turn47_fields:
  "action turn47 = ''turn''" "param p_angle (parameters turn47) = Some 47"
  by (simp_all add: turn47_def param_def emptyParameters_def)

text \<open>
  Claim C4, as the code has it. A turn decision with angle \<open>a\<close> that passes through the
  decision flow has its angle clamped to [-180, 180] and snapped to the nearest multiple of
  30 (a tie going up); the resolver snaps the angle it receives once more, which changes
  nothing, and adds it to the orientation modulo 360: for an avatar whose orientation is in
  [0, 360) the new orientation is again in [0, 360) and differs from the old one plus the
  snapped angle by a multiple of 360. The resolver itself does not clamp: applied to the
  unvalidated decision it snaps \<open>a\<close> as it is.
\<close>

theorem turn_snaps_and_wraps:
  assumes found: "findIndex (\<lambda>a. av_id a = avatarId) (avatars prev) = Some i"
    and lo: "0 \<le> orientation (avatars prev ! i)" and hi: "orientation (avatars prev ! i) < 360"
    and turn: "action d = ''turn''" and ang: "param p_angle (parameters d) = Some a"
  shows "\<exists>snapped res.
     param p_angle (parameters (validateDecision d)) = Some snapped \<and>
     snapped = 30 * of_int \<lfloor>max (-180) (min 180 a) / 30 + 1 / 2\<rfloor> \<and>
     \<bar>snapped - max (-180) (min 180 a)\<bar> \<le> 15 \<and> -180 \<le> snapped \<and> snapped \<le> 180 \<and>
     orientation (avatars (fst (executeDecision fp now oracle avatarId (validateDecision d) cur c prev)) ! i) = res \<and>
     0 \<le> res \<and> res < 360 \<and>
     (\<exists>m::int. res = orientation (avatars prev ! i) + snapped + 360 * of_int m) \<and>
     orientation (avatars (fst (executeDecision fp now oracle avatarId d cur c prev)) ! i) =
       js_rem (orientation (avatars prev ! i) + 30 * of_int \<lfloor>a / 30 + 1 / 2\<rfloor> + 360) 360"
proof -
  define b where "b = max (-180) (min 180 a)"
  define snapped where "snapped = js_round (b / 30) * 30"
  define ori where "ori = orientation (avatars prev ! i)"
  define res where "res = js_rem (ori + snapped + 360) 360"
  have v: "action (validateDecision d) = ''turn''"
      "param p_angle (parameters (validateDecision d)) = Some snapped"
    using validate_turn[OF turn ang] by (simp_all add: snapped_def b_def)
  have sn: "snapped = 30 * of_int \<lfloor>b / 30 + 1 / 2\<rfloor>"
    by (simp add: snapped_def js_round_def)
  have again: "js_round (snapped / 30) * 30 = snapped"
    unfolding sn by (simp add: js_round_def)
  have rng: "-180 \<le> snapped \<and> snapped \<le> 180"
    unfolding snapped_def by (rule snap_bounds) (simp_all add: b_def)
  have near: "\<bar>snapped - b\<bar> \<le> 15" unfolding snapped_def by (rule snap_near)
  have res_eq: "orientation (avatars (fst (executeDecision fp now oracle avatarId (validateDecision d) cur c prev)) ! i) = res"
    by (simp add: turn_orientation[OF found v(1)] v(2) again res_def ori_def)
  have nonneg: "0 \<le> ori + snapped + 360" using lo rng by (simp add: ori_def)
  have r: "0 \<le> res \<and> res < 360" unfolding res_def by (rule js_rem_range[OF nonneg])
  have "res = ori + snapped + 360 * of_int (1 - \<lfloor>(ori + snapped + 360) / 360\<rfloor>)"
    unfolding res_def js_rem_pos[OF nonneg] by (simp add: algebra_simps)
  then have m: "\<exists>m::int. res = ori + snapped + 360 * of_int m" by blast
  have direct: "orientation (avatars (fst (executeDecision fp now oracle avatarId d cur c prev)) ! i) =
       js_rem (ori + 30 * of_int \<lfloor>a / 30 + 1 / 2\<rfloor> + 360) 360"
    by (simp add: turn_orientation[OF found turn] ang js_round_def ori_def mult.commute)
  show ?thesis
    using v(2) sn near rng res_eq r m direct unfolding b_def ori_def by blast
qed

text \<open>The theorem at the first avatar of the initial world, turning by 47 degrees.\<close>

theorem turn_snaps_and_wraps_witness:
  "findIndex (\<lambda>a. av_id a = generateId ''avatar'' 0) (avatars world0) = Some 0 \<and>
   0 \<le> orientation (avatars world0 ! 0) \<and> orientation (avatars world0 ! 0) < 360 \<and>
   action turn47 = ''turn'' \<and> param p_angle (parameters turn47) = Some 47 \<and>
   (\<exists>res. orientation (avatars (fst (executeDecision exactArithmetic 1 (Inr []) (generateId ''avatar'' 0)
              (validateDecision turn47) world0 5 world0)) ! 0) = res \<and> 0 \<le> res \<and> res < 360)"
proof -
  have lo: "0 \<le> orientation (avatars world0 ! 0)"
    and hi: "orientation (avatars world0 ! 0) < 360"
    by (simp_all add: world0_def createInitialState_def)
  from turn_snaps_and_wraps[OF world0_find0 lo hi turn47_fields, of exactArithmetic 1 "Inr []" world0 5]
  have "\<exists>res. orientation (avatars (fst (executeDecision exactArithmetic 1 (Inr []) (generateId ''avatar'' 0)
              (validateDecision turn47) world0 5 world0)) ! 0) = res \<and> 0 \<le> res \<and> res < 360"
    by blast
  with world0_find0 lo hi turn47_fields show ?thesis by blast
qed

text \<open>
  Claim C4 as stated fails at its own example: a turn by 47 degrees, from orientation 0,
  leaves the avatar at 60 degrees, not at 30.
\<close>

theorem turn_47_counterexample:
  "orientation (avatars world0 ! 0) = 0 \<and>
   orientation (avatars (fst (executeDecision exactArithmetic 1 (Inr []) (generateId ''avatar'' 0)
      (validateDecision turn47) world0 5 world0)) ! 0) = 60 \<and>
   orientation (avatars (fst (executeDecision exactArithmetic 1 (Inr []) (generateId ''avatar'' 0)
      (validateDecision turn47) world0 5 world0)) ! 0) \<noteq> orientation (avatars world0 ! 0) + 30"
proof -
  have v: "action (validateDecision turn47) = ''turn''"
      "param p_angle (parameters (validateDecision turn47)) = Some 60"
    using validate_turn[OF turn47_fields] by (simp_all add: js_round_def)
  have o: "orientation (avatars world0 ! 0) = 0"
    by (simp add: world0_def createInitialState_def)
  have "orientation (avatars (fst (executeDecision exactArithmetic 1 (Inr []) (generateId ''avatar'' 0)
      (validateDecision turn47) world0 5 world0)) ! 0) = 60"
    by (simp add: turn_orientation[OF world0_find0 v(1)] v(2) o js_round_def js_rem_def)
  with o show ?thesis by simp
qed

section \<open>Object interaction\<close>

text \<open>
  Claim C6. The interaction with an object that exists does not merge the reaction into the
  avatar's thought, it replaces the thought. In the initial world \<^verbatim>\<open>avatar-0\<close> decides
  to interact with the orb \<^verbatim>\<open>object-2\<close> with the thought \<^verbatim>\<open>What is that orb?\<close> and the
  interaction flow answers \<^verbatim>\<open>It hums.\<close>: the stored thought is the fresh text
  \<^verbatim>\<open>Interacted with object-2. Note: "A curious glowing orb.". Reaction: It hums.\<close>, in
  which the decision's thought does not occur, and the same decision with the thought
  \<^verbatim>\<open>I should leave.\<close> stores the very same text. When the flow fails with the message
  \<^verbatim>\<open>timeout\<close> the stored thought is
  \<^verbatim>\<open>Interacted with object-2. Failed to process reaction: timeout\<close>, again without the
  decision's thought. The action and the timer are as stated: the current action is absent
  and the next decision is due 500 ms after the resolution time 1.
\<close>

theorem interact_discards_decision_thought:
  "d_thought interactOrb = Some ''What is that orb?'' \<and>
   d_thought interactOrbOtherThought = Some ''I should leave.'' \<and>
   thought (avatars (fst (executeDecision exactArithmetic 1 (Inr ''It hums.'') (generateId ''avatar'' 0)
      interactOrb world0 5 world0)) ! 0) =
     Some (''Interacted with object-2. Note: '' @ dquote @ ''A curious glowing orb.'' @ dquote @
           ''. Reaction: It hums.'') \<and>
   thought (avatars (fst (executeDecision exactArithmetic 1 (Inr ''It hums.'') (generateId ''avatar'' 0)
      interactOrbOtherThought world0 5 world0)) ! 0) =
     Some (''Interacted with object-2. Note: '' @ dquote @ ''A curious glowing orb.'' @ dquote @
           ''. Reaction: It hums.'') \<and>
   thought (avatars (fst (executeDecision exactArithmetic 1 (Inl ''timeout'') (generateId ''avatar'' 0)
      interactOrb world0 5 world0)) ! 0) =
     Some ''Interacted with object-2. Failed to process reaction: timeout'' \<and>
   currentAction (avatars (fst (executeDecision exactArithmetic 1 (Inr ''It hums.'') (generateId ''avatar'' 0)
      interactOrb world0 5 world0)) ! 0) = None \<and>
   nextDecisionTime (avatars (fst (executeDecision exactArithmetic 1 (Inr ''It hums.'') (generateId ''avatar'' 0)
      interactOrb world0 5 world0)) ! 0) = Some 501"
proof -
  obtain av where av: "find (\<lambda>a. av_id a = generateId ''avatar'' 0) (avatars world0) = Some av"
    using world0_me by blast
  have p1: "pre_thought (resolveInteraction (Inr ''It hums.'') (generateId ''avatar'' 0) interactOrb world0) =
      Some (''Interacted with '' @ generateId ''object'' 2 @ ''. Note: '' @ dquote @
            ''A curious glowing orb.'' @ dquote @ ''. Reaction: It hums.'')"
    by (simp add: pre_interact(3)[OF interactOrb_fields(1)] interactOrb_fields world0_orb av tmpl_def)
  have p2: "pre_thought (resolveInteraction (Inr ''It hums.'') (generateId ''avatar'' 0)
        interactOrbOtherThought world0) =
      Some (''Interacted with '' @ generateId ''object'' 2 @ ''. Note: '' @ dquote @
            ''A curious glowing orb.'' @ dquote @ ''. Reaction: It hums.'')"
    by (simp add: pre_interact(3)[OF interactOrbOtherThought_fields(1)] interactOrbOtherThought_fields
        world0_orb av tmpl_def)
  have p3: "pre_thought (resolveInteraction (Inl ''timeout'') (generateId ''avatar'' 0) interactOrb world0) =
      Some (''Interacted with '' @ generateId ''object'' 2 @ ''. Failed to process reaction: timeout'')"
    by (simp add: pre_interact(3)[OF interactOrb_fields(1)] interactOrb_fields world0_orb av tmpl_def)
  have t: "nextDecisionTime (avatars (fst (executeDecision exactArithmetic 1 (Inr ''It hums.'')
      (generateId ''avatar'' 0) interactOrb world0 5 world0)) ! 0) = Some 501"
    using interact_timer[OF world0_find0 interactOrb_fields(1), of exactArithmetic 1 "Inr ''It hums.''" world0 5]
    by simp
  show ?thesis
    unfolding interact_stored[OF world0_find0 interactOrb_fields(1)]
      interact_stored[OF world0_find0 interactOrbOtherThought_fields(1)] p1 p2 p3 t
    by (simp add: interactOrbOtherThought_fields objectId2 dquote_def)
qed

section \<open>The decision timer and the stored action\<close>

text \<open>
  Claim C7, as the code has it. After the resolver has applied a decision of an avatar that
  is in the world, at time \<open>now\<close>, the avatar's next decision is due at \<open>now\<close> plus 500 ms
  when the decision was \<^verbatim>\<open>interact_object\<close>, and otherwise at \<open>now\<close> plus the decision's
  \<^verbatim>\<open>parameters.duration\<close> when present, else the avatar's \<^verbatim>\<open>settings.rateLimit\<close>, clamped
  into [100, 10000]; and the stored current action is absent exactly when the resolved
  action is \<^verbatim>\<open>idle\<close> or \<^verbatim>\<open>thinking\<close>, and is the resolved action otherwise.
\<close>

theorem decision_timer_and_stored_action:
  assumes found: "findIndex (\<lambda>a. av_id a = avatarId) (avatars prev) = Some i"
  shows "nextDecisionTime (avatars (fst (executeDecision fp now oracle avatarId d cur c prev)) ! i) =
       Some (now +
         (if action d = ''interact_object'' then 500
          else min 10000 (max 100
                 (case param duration (parameters d) of
                    Some t \<Rightarrow> t | None \<Rightarrow> rateLimit (settings (avatars prev ! i)))))) \<and>
     currentAction (avatars (fst (executeDecision fp now oracle avatarId d cur c prev)) ! i) =
       (if updateAction (resolved fp now oracle avatarId d cur c prev i) = ''idle'' \<or>
           updateAction (resolved fp now oracle avatarId d cur c prev i) = ''thinking''
        then None else Some (updateAction (resolved fp now oracle avatarId d cur c prev i)))"
proof (cases "action d = ''interact_object''")
  case True
  then show ?thesis
    unfolding executeDecision_stored[OF found] store_fields
    by (simp add: pre_interact(2)[OF True] clamped_short finalActionString_def)
next
  case False
  then show ?thesis
    unfolding executeDecision_stored[OF found] store_fields
    by (simp add: pre_other(1)[OF False] clampedDelayOf_def finalActionString_def)
qed

lemma idle20000_fields:
  "action idle20000 = ''idle''" "action idle20000 \<noteq> ''interact_object''"
  "param duration (parameters idle20000) = Some 20000"
  by (simp_all add: idle20000_def param_def emptyParameters_def)

lemma resolved_idle20000:
  "updateAction (resolved fp now oracle avatarId idle20000 cur c prev i) = ''idle''"
  by (simp add: resolved_def Let_def pre_other[OF idle20000_fields(2)] idle20000_fields(1)
      resolve_idle initialLocals_def)

text \<open>The theorem at \<^verbatim>\<open>avatar-0\<close> of the initial world, idling for 20000 ms: the delay is 10000.\<close>

theorem decision_timer_and_stored_action_witness:
  "findIndex (\<lambda>a. av_id a = generateId ''avatar'' 0) (avatars world0) = Some 0 \<and>
   nextDecisionTime (avatars (fst (executeDecision exactArithmetic 1 (Inr []) (generateId ''avatar'' 0) idle20000
                                 world0 5 world0)) ! 0) = Some 10001 \<and>
   currentAction (avatars (fst (executeDecision exactArithmetic 1 (Inr []) (generateId ''avatar'' 0) idle20000
                                 world0 5 world0)) ! 0) = None"
  using decision_timer_and_stored_action[OF world0_find0, of exactArithmetic 1 "Inr []" idle20000 world0 5]
  by (simp add: world0_find0 idle20000_fields resolved_idle20000)

text \<open>
  Claim C7 as stated fails for \<^verbatim>\<open>interact_object\<close>: the decision carries a duration of 2000 ms
  and the avatar's rate limit is 1000 ms, yet the next decision is due 500 ms after the
  resolution time 1.
\<close>

theorem interact_ignores_duration_counterexample:
  "action interactOrb = ''interact_object'' \<and>
   param duration (parameters interactOrb) = Some 2000 \<and>
   rateLimit (settings (avatars world0 ! 0)) = 1000 \<and>
   nextDecisionTime (avatars (fst (executeDecision exactArithmetic 1 (Inr ''It hums.'') (generateId ''avatar'' 0)
                                 interactOrb world0 5 world0)) ! 0) = Some 501 \<and>
   nextDecisionTime (avatars (fst (executeDecision exactArithmetic 1 (Inr ''It hums.'') (generateId ''avatar'' 0)
                                 interactOrb world0 5 world0)) ! 0) \<noteq> Some (1 + 2000)"
  using interact_timer[OF world0_find0 interactOrb_fields(1), of exactArithmetic 1 "Inr ''It hums.''" world0 5]
  by (simp add: interactOrb_fields world0_avatar0)

section \<open>Movement\<close>

text \<open>
  Claim C3. A \<^verbatim>\<open>move\<close> decision of an avatar that is in the world clamps the distance to
  [-15, 15] and takes the candidate position that far along the avatar's orientation, every
  operation rounded as the code's double arithmetic rounds it: the heading in radians is
  orientation * (PI / 180), the offsets are the clamped distance times its rounded cosine
  and sine, and the gap between two points is the rounded square root of the rounded sum of
  the rounded squares of the rounded coordinate differences. The move is rejected (the
  position stays, the thought is the decision's thought followed by the note
  \<^verbatim>\<open>(Movement blocked)\<close>) exactly when the candidate is outside the board
  [0, width] x [0, height], or its gap to the closest point of some obstacle rectangle is
  strictly less than 8, or its gap to another avatar is strictly less than 16; otherwise the
  avatar is at the candidate position and its thought is the decision's.
\<close>

theorem move_blocked_exactly_on_collision:
  assumes found: "findIndex (\<lambda>a. av_id a = avatarId) (avatars prev) = Some i"
    and act: "action d = ''move''"
    and me: "me = avatars prev ! i"
    and dst: "dst = max (-15) (min 15 (case parameters d of None \<Rightarrow> 0
                | Some ps \<Rightarrow> (case p_distance ps of None \<Rightarrow> 0 | Some v \<Rightarrow> v)))"
    and rad: "rad = fl fp (orientation me * fl fp (fl fp pi / 180))"
    and cand: "cand = \<lparr>vx = fl fp (vx (av_position me) + fl fp (dst * fcos fp rad)),
                       vy = fl fp (vy (av_position me) + fl fp (dst * fsin fp rad))\<rparr>"
    and gap: "gap = (\<lambda>p q. fl fp (sqrt (fl fp
                 (fl fp (fl fp (vx p - vx q) * fl fp (vx p - vx q)) +
                  fl fp (fl fp (vy p - vy q) * fl fp (vy p - vy q))))))"
    and blocked: "blocked \<longleftrightarrow>
       \<not> (0 \<le> vx cand \<and> vx cand \<le> width (boardSize (simulation prev)) \<and>
          0 \<le> vy cand \<and> vy cand \<le> height (boardSize (simulation prev))) \<or>
       (\<exists>obs\<in>set (obstacles prev).
          gap cand
            \<lparr>vx = max (vx (obs_position obs))
                    (min (vx cand) (fl fp (vx (obs_position obs) + vx (obs_size obs)))),
             vy = max (vy (obs_position obs))
                    (min (vy cand) (fl fp (vy (obs_position obs) + vy (obs_size obs))))\<rparr>
          < 8) \<or>
       (\<exists>other\<in>set (avatars prev). av_id other \<noteq> avatarId \<and> gap cand (av_position other) < 16)"
  shows "av_position (avatars (fst (executeDecision fp now oracle avatarId d cur c prev)) ! i) =
       (if blocked then av_position me else cand) \<and>
     thought (avatars (fst (executeDecision fp now oracle avatarId d cur c prev)) ! i) =
       (if blocked
        then Some ((case d_thought d of None \<Rightarrow> [] | Some t \<Rightarrow> if t = [] then [] else t @ '' '') @
                   ''(Movement blocked)'')
        else (case d_thought d of None \<Rightarrow> None | Some t \<Rightarrow> if t = [] then None else Some t))"
proof -
  have nt: "action d \<noteq> ''think''" using act by simp
  have c: "cand = potentialPositionOf fp me (parameters d)"
    by (simp add: cand dst rad potentialPositionOf_def Let_def param_def split: option.splits)
  have g: "gap p q = distance64 fp p q" for p q
    by (simp add: gap distance64_def Let_def)
  have b: "blocked \<longleftrightarrow> (\<not> isPointInBounds cand (boardSize (simulation prev)) \<or>
                      (\<exists>obs\<in>set (obstacles prev). hitsObstacle fp cand obs) \<or>
                      (\<exists>other\<in>set (avatars prev). hitsAvatar fp avatarId cand other))"
    unfolding blocked g by (simp add: isPointInBounds_def hitsObstacle_def hitsAvatar_def Let_def)
  show ?thesis
    unfolding executeDecision_stored[OF found] store_fields resolved_move[OF act]
      moveCase_result me[symmetric]
    unfolding c[symmetric] b[symmetric]
    by (simp add: annotate_cases initialThought_other[OF nt] split: option.splits)
qed

text \<open>
  Scenario A: \<^verbatim>\<open>avatar-0\<close> of the initial world, at (50, 50) with orientation 0 on the
  500 x 500 board, moves by 10 and ends at (60, 50), its thought empty. All values are
  integers, on which the rounding is the identity.
\<close>

theorem move_scenario_A_witness:
  "findIndex (\<lambda>a. av_id a = generateId ''avatar'' 0) (avatars world0) = Some 0 \<and>
   action move10 = ''move'' \<and>
   av_position (avatars world0 ! 0) = \<lparr>vx = 50, vy = 50\<rparr> \<and>
   orientation (avatars world0 ! 0) = 0 \<and>
   av_position (avatars (fst (executeDecision exactArithmetic 1 (Inr []) (generateId ''avatar'' 0)
                               move10 world0 5 world0)) ! 0) = \<lparr>vx = 60, vy = 50\<rparr> \<and>
   thought (avatars (fst (executeDecision exactArithmetic 1 (Inr []) (generateId ''avatar'' 0)
                               move10 world0 5 world0)) ! 0) = None"
proof -
  define cand :: Vector2 where "cand = \<lparr>vx = 60, vy = 50\<rparr>"
  define g :: "Vector2 \<Rightarrow> Vector2 \<Rightarrow> real" where
    "g = (\<lambda>p q. fl exactArithmetic (sqrt (fl exactArithmetic
                 (fl exactArithmetic (fl exactArithmetic (vx p - vx q) * fl exactArithmetic (vx p - vx q)) +
                  fl exactArithmetic (fl exactArithmetic (vy p - vy q) * fl exactArithmetic (vy p - vy q))))))"
  have gd: "g p q = distance p q" for p q
    by (simp add: g_def distance_def Let_def exactArithmetic_def)
  have d: "(10::real) = max (-15) (min 15 (case parameters move10 of None \<Rightarrow> 0
                | Some ps \<Rightarrow> (case p_distance ps of None \<Rightarrow> 0 | Some v \<Rightarrow> v)))"
    by (simp add: move10_def emptyParameters_def)
  have r: "(0::real) = fl exactArithmetic (orientation (avatars world0 ! 0) *
              fl exactArithmetic (fl exactArithmetic pi / 180))"
    by (simp add: world0_avatar0 exactArithmetic_def)
  have c: "cand = \<lparr>vx = fl exactArithmetic (vx (av_position (avatars world0 ! 0)) +
                        fl exactArithmetic (10 * fcos exactArithmetic 0)),
                    vy = fl exactArithmetic (vy (av_position (avatars world0 ! 0)) +
                        fl exactArithmetic (10 * fsin exactArithmetic 0))\<rparr>"
    by (simp add: cand_def world0_avatar0 exactArithmetic_def)
  have far: "\<not> (\<exists>other\<in>set (avatars world0). av_id other \<noteq> generateId ''avatar'' 0 \<and>
                 g cand (av_position other) < 16)"
    using world0_others by (auto simp: gd distance_less_iff cand_def)
  have b: "False \<longleftrightarrow>
       \<not> (0 \<le> vx cand \<and> vx cand \<le> width (boardSize (simulation world0)) \<and>
          0 \<le> vy cand \<and> vy cand \<le> height (boardSize (simulation world0))) \<or>
       (\<exists>obs\<in>set (obstacles world0).
          g cand
            \<lparr>vx = max (vx (obs_position obs))
                    (min (vx cand) (fl exactArithmetic (vx (obs_position obs) + vx (obs_size obs)))),
             vy = max (vy (obs_position obs))
                    (min (vy cand) (fl exactArithmetic (vy (obs_position obs) + vy (obs_size obs))))\<rparr>
          < 8) \<or>
       (\<exists>other\<in>set (avatars world0). av_id other \<noteq> generateId ''avatar'' 0 \<and>
          g cand (av_position other) < 16)"
    using far
    by (simp add: world0_board world0_obstacles gd distance_less_iff)
       (simp add: cand_def exactArithmetic_def)
  from move_blocked_exactly_on_collision[OF world0_find0 move10_fields(1) refl d r c g_def b,
      of 1 "Inr []" world0 5]
  show ?thesis
    by (simp add: world0_find0 move10_fields world0_avatar0 cand_def move10_def)
qed

text \<open>
  A candidate at exactly the radius is accepted. With a 20 x 20 obstacle at (68, 40) added to
  the initial world, the closest point of the obstacle to the candidate (60, 50) is (68, 50),
  at distance exactly 8, and \<^verbatim>\<open>avatar-0\<close> moving by 10 from (50, 50) still ends at (60, 50):
  the comparison is \<^verbatim>\<open>distance < avatarRadius\<close>.
\<close>

theorem move_at_radius_counterexample:
  "last (obstacles worldWithNearObstacle) =
     \<lparr>obs_id = generateId ''obstacle'' 5, obs_position = \<lparr>vx = 68, vy = 40\<rparr>,
      obs_size = \<lparr>vx = 20, vy = 20\<rparr>\<rparr> \<and>
   max (68::real) (min 60 (68 + 20)) = 68 \<and> max (40::real) (min 50 (40 + 20)) = 50 \<and>
   sqrt ((60 - 68) * (60 - 68) + (50 - 50) * (50 - 50)) = (8::real) \<and>
   av_position (avatars worldWithNearObstacle ! 0) = \<lparr>vx = 50, vy = 50\<rparr> \<and>
   av_position (avatars (fst (executeDecision exactArithmetic 1 (Inr []) (generateId ''avatar'' 0)
      move10 worldWithNearObstacle 6 worldWithNearObstacle)) ! 0) = \<lparr>vx = 60, vy = 50\<rparr>"
proof -
  have c: "potentialPositionOf exactArithmetic (avatars worldWithNearObstacle ! 0) (parameters move10)
             = \<lparr>vx = 60, vy = 50\<rparr>"
    by (rule exact_candidate_move10) (simp_all add: nearObstacle_facts world0_avatar0)
  have far: "\<not> (\<exists>other\<in>set (avatars world0).
      hitsAvatar exactArithmetic (generateId ''avatar'' 0) \<lparr>vx = 60, vy = 50\<rparr> other)"
    using world0_others by (auto simp: hitsAvatar_exact distance_less_iff)
  have clear: "\<not> (\<exists>obs\<in>set (obstacles worldWithNearObstacle).
      hitsObstacle exactArithmetic \<lparr>vx = 60, vy = 50\<rparr> obs)"
    by (simp add: nearObstacle_facts world0_obstacles hitsObstacle_exact distance_less_iff)
  have inb: "isPointInBounds \<lparr>vx = 60, vy = 50\<rparr> (boardSize (simulation worldWithNearObstacle))"
    by (simp add: isPointInBounds_def nearObstacle_facts)
  have pos: "av_position (avatars (fst (executeDecision exactArithmetic 1 (Inr []) (generateId ''avatar'' 0)
      move10 worldWithNearObstacle 6 worldWithNearObstacle)) ! 0) = \<lparr>vx = 60, vy = 50\<rparr>"
    unfolding move_stored[OF nearObstacle_find0 move10_fields(1)] c
    using far clear inb by (simp add: nearObstacle_facts)
  have s: "sqrt ((60 - 68) * (60 - 68) + (50 - 50) * (50 - 50)) = (8::real)"
  proof -
    have "sqrt ((60 - 68) * (60 - 68) + (50 - 50) * (50 - 50)) = sqrt ((8::real) * 8)" by simp
    then show ?thesis by (simp only: real_sqrt_mult_self) simp
  qed
  show ?thesis using pos s by (simp add: nearObstacle_facts world0_avatar0)
qed

section \<open>Resizing the board to its current size\<close>

text \<open>
  Claim C8, as the code has it. On a board of at least 100 x 100, resizing to the current
  size keeps the number of avatars and of objects, and leaves an avatar at its place exactly
  when its centre is at least 8 away from every edge, an object exactly when it is at least
  5 away from every edge; when every obstacle starts on the board and does not reach beyond
  its right and bottom edges, the obstacles are unchanged as well.
\<close>

theorem resize_to_current_size_keeps_inset_entities:
  assumes bs: "bs = boardSize (simulation s)"
    and w: "100 \<le> width bs" and h: "100 \<le> height bs"
    and s': "s' = resizeBoard now bs s"
  shows "length (avatars s') = length (avatars s) \<and>
     (\<forall>k<length (avatars s).
        av_position (avatars s' ! k) = av_position (avatars s ! k) \<longleftrightarrow>
          8 \<le> vx (av_position (avatars s ! k)) \<and> vx (av_position (avatars s ! k)) \<le> width bs - 8 \<and>
          8 \<le> vy (av_position (avatars s ! k)) \<and> vy (av_position (avatars s ! k)) \<le> height bs - 8) \<and>
     length (objects s') = length (objects s) \<and>
     (\<forall>k<length (objects s).
        obj_position (objects s' ! k) = obj_position (objects s ! k) \<longleftrightarrow>
          5 \<le> vx (obj_position (objects s ! k)) \<and> vx (obj_position (objects s ! k)) \<le> width bs - 5 \<and>
          5 \<le> vy (obj_position (objects s ! k)) \<and> vy (obj_position (objects s ! k)) \<le> height bs - 5) \<and>
     ((\<forall>ob\<in>set (obstacles s).
         0 \<le> vx (obs_position ob) \<and> vx (obs_position ob) \<le> width bs - vx (obs_size ob) \<and>
         vx (obs_position ob) < width bs \<and>
         0 \<le> vy (obs_position ob) \<and> vy (obs_position ob) \<le> height bs - vy (obs_size ob) \<and>
         vy (obs_position ob) < height bs)
      \<longrightarrow> obstacles s' = obstacles s)"
proof -
  have mw: "max 100 (width bs) = width bs" and mh: "max 100 (height bs) = height bs"
    using w h by simp_all
  have av: "\<forall>k<length (avatars s).
        av_position (avatars s' ! k) = av_position (avatars s ! k) \<longleftrightarrow>
          8 \<le> vx (av_position (avatars s ! k)) \<and> vx (av_position (avatars s ! k)) \<le> width bs - 8 \<and>
          8 \<le> vy (av_position (avatars s ! k)) \<and> vy (av_position (avatars s ! k)) \<le> height bs - 8"
    using w h by (auto simp: s' resizeBoard_avatars mw mh vector_eq_iff)
  have ob: "\<forall>k<length (objects s).
        obj_position (objects s' ! k) = obj_position (objects s ! k) \<longleftrightarrow>
          5 \<le> vx (obj_position (objects s ! k)) \<and> vx (obj_position (objects s ! k)) \<le> width bs - 5 \<and>
          5 \<le> vy (obj_position (objects s ! k)) \<and> vy (obj_position (objects s ! k)) \<le> height bs - 5"
    using w h by (auto simp: s' resizeBoard_objects mw mh vector_eq_iff)
  have obs: "(\<forall>ob\<in>set (obstacles s).
         0 \<le> vx (obs_position ob) \<and> vx (obs_position ob) \<le> width bs - vx (obs_size ob) \<and>
         vx (obs_position ob) < width bs \<and>
         0 \<le> vy (obs_position ob) \<and> vy (obs_position ob) \<le> height bs - vy (obs_size ob) \<and>
         vy (obs_position ob) < height bs)
      \<longrightarrow> obstacles s' = obstacles s"
  proof
    assume a: "\<forall>ob\<in>set (obstacles s).
         0 \<le> vx (obs_position ob) \<and> vx (obs_position ob) \<le> width bs - vx (obs_size ob) \<and>
         vx (obs_position ob) < width bs \<and>
         0 \<le> vy (obs_position ob) \<and> vy (obs_position ob) \<le> height bs - vy (obs_size ob) \<and>
         vy (obs_position ob) < height bs"
    have m: "map (\<lambda>ob. ob\<lparr>obs_position :=
            \<lparr>vx = min (max (vx (obs_position ob)) 0) (width bs - vx (obs_size ob)),
             vy = min (max (vy (obs_position ob)) 0) (height bs - vy (obs_size ob))\<rparr>\<rparr>)
          (obstacles s) = obstacles s"
      using a by (intro map_idI obstacle_same_position clamp_id) simp_all
    show "obstacles s' = obstacles s"
      unfolding s' resizeBoard_obstacles mw mh m using a by (simp add: filter_id_conv)
  qed
  show ?thesis using av ob obs by (simp add: s' resizeBoard_avatars resizeBoard_objects)
qed

text \<open>The theorem at the initial world, whose entities all lie well inside the board.\<close>

theorem resize_to_current_size_keeps_inset_entities_witness:
  "boardSize (simulation world0) = \<lparr>width = 500, height = 500\<rparr> \<and>
   av_position (avatars (resizeBoard 1 (boardSize (simulation world0)) world0) ! 0) =
     av_position (avatars world0 ! 0) \<and>
   obj_position (objects (resizeBoard 1 (boardSize (simulation world0)) world0) ! 0) =
     obj_position (objects world0 ! 0) \<and>
   obstacles (resizeBoard 1 (boardSize (simulation world0)) world0) = obstacles world0"
proof -
  have w: "100 \<le> width (boardSize (simulation world0))"
    and h: "100 \<le> height (boardSize (simulation world0))"
    by (simp_all add: world0_board)
  note t = resize_to_current_size_keeps_inset_entities[OF refl w h refl, of 1]
  from t have "av_position (avatars (resizeBoard 1 (boardSize (simulation world0)) world0) ! 0) =
      av_position (avatars world0 ! 0) \<longleftrightarrow>
      8 \<le> vx (av_position (avatars world0 ! 0)) \<and>
      vx (av_position (avatars world0 ! 0)) \<le> width (boardSize (simulation world0)) - 8 \<and>
      8 \<le> vy (av_position (avatars world0 ! 0)) \<and>
      vy (av_position (avatars world0 ! 0)) \<le> height (boardSize (simulation world0)) - 8"
    using world0_first(1) by blast
  then have a: "av_position (avatars (resizeBoard 1 (boardSize (simulation world0)) world0) ! 0) =
      av_position (avatars world0 ! 0)"
    by (simp add: world0_first world0_board)
  from t have "obj_position (objects (resizeBoard 1 (boardSize (simulation world0)) world0) ! 0) =
      obj_position (objects world0 ! 0) \<longleftrightarrow>
      5 \<le> vx (obj_position (objects world0 ! 0)) \<and>
      vx (obj_position (objects world0 ! 0)) \<le> width (boardSize (simulation world0)) - 5 \<and>
      5 \<le> vy (obj_position (objects world0 ! 0)) \<and>
      vy (obj_position (objects world0 ! 0)) \<le> height (boardSize (simulation world0)) - 5"
    using world0_first(3) by blast
  then have b: "obj_position (objects (resizeBoard 1 (boardSize (simulation world0)) world0) ! 0) =
      obj_position (objects world0 ! 0)"
    by (simp add: world0_first world0_board)
  have "\<forall>ob\<in>set (obstacles world0).
         0 \<le> vx (obs_position ob) \<and>
         vx (obs_position ob) \<le> width (boardSize (simulation world0)) - vx (obs_size ob) \<and>
         vx (obs_position ob) < width (boardSize (simulation world0)) \<and>
         0 \<le> vy (obs_position ob) \<and>
         vy (obs_position ob) \<le> height (boardSize (simulation world0)) - vy (obs_size ob) \<and>
         vy (obs_position ob) < height (boardSize (simulation world0))"
    by (simp add: world0_obstacles world0_board)
  with t have c: "obstacles (resizeBoard 1 (boardSize (simulation world0)) world0) = obstacles world0"
    by blast
  show ?thesis using a b c world0_board by blast
qed

text \<open>
  Claim C8 as stated fails for an entity near the edge: the object added at (2, 2) is at
  (5, 5) after the 500 x 500 board has been resized to 500 x 500.
\<close>

theorem resize_moves_corner_object_counterexample:
  "boardSize (simulation worldWithCornerObject) = \<lparr>width = 500, height = 500\<rparr> \<and>
   map obj_position (objects worldWithCornerObject) =
     [\<lparr>vx = 250, vy = 250\<rparr>, \<lparr>vx = 2, vy = 2\<rparr>] \<and>
   map obj_position (objects (resizeBoard 1 (boardSize (simulation worldWithCornerObject))
                                worldWithCornerObject)) =
     [\<lparr>vx = 250, vy = 250\<rparr>, \<lparr>vx = 5, vy = 5\<rparr>]"
proof -
  have "map obj_position (objects (resizeBoard 1 (boardSize (simulation worldWithCornerObject))
                                worldWithCornerObject)) =
     map (\<lambda>p. \<lparr>vx = min (max (vx p) 5) 495, vy = min (max (vy p) 5) 495\<rparr>)
       (map obj_position (objects worldWithCornerObject))"
    by (simp add: resizeBoard_objects cornerObject_facts(1) comp_def)
  then show ?thesis by (simp add: cornerObject_facts)
qed

section \<open>Obstacles after a resize\<close>

text \<open>
  Claim C9, as the code has it. After \<^verbatim>\<open>resizeBoard\<close> the board is the requested size, at least
  100 in each direction, and every obstacle of the new list is an obstacle of the old list
  with the same identifier and size, its corner clamped to \<open>min (max x 0) (W - size.x)\<close> and
  \<open>min (max y 0) (H - size.y)\<close> and strictly inside the board; an obstacle that is no wider
  than the new board lies within it horizontally, one that is no taller lies within it
  vertically.
\<close>

theorem resized_obstacles_are_clamped:
  assumes s': "s' = resizeBoard now newSize prev"
    and W: "W = max 100 (width newSize)" and H: "H = max 100 (height newSize)"
  shows "boardSize (simulation s') = \<lparr>width = W, height = H\<rparr> \<and>
     (\<forall>ob'\<in>set (obstacles s'). \<exists>ob\<in>set (obstacles prev).
        obs_id ob' = obs_id ob \<and> obs_size ob' = obs_size ob \<and>
        vx (obs_position ob') = min (max (vx (obs_position ob)) 0) (W - vx (obs_size ob)) \<and>
        vy (obs_position ob') = min (max (vy (obs_position ob)) 0) (H - vy (obs_size ob)) \<and>
        vx (obs_position ob') < W \<and> vy (obs_position ob') < H \<and>
        (vx (obs_size ob') \<le> W \<longrightarrow>
           0 \<le> vx (obs_position ob') \<and> vx (obs_position ob') + vx (obs_size ob') \<le> W) \<and>
        (vy (obs_size ob') \<le> H \<longrightarrow>
           0 \<le> vy (obs_position ob') \<and> vy (obs_position ob') + vy (obs_size ob') \<le> H))"
proof -
  define f :: "Obstacle \<Rightarrow> Obstacle" where "f = (\<lambda>ob. ob\<lparr>obs_position :=
            \<lparr>vx = min (max (vx (obs_position ob)) 0) (W - vx (obs_size ob)),
             vy = min (max (vy (obs_position ob)) 0) (H - vy (obs_size ob))\<rparr>\<rparr>)"
  have obs: "obstacles s' =
      filter (\<lambda>ob. vx (obs_position ob) < W \<and> vy (obs_position ob) < H) (map f (obstacles prev))"
    unfolding s' resizeBoard_obstacles W H f_def by (rule refl)
  have "\<exists>ob\<in>set (obstacles prev).
        obs_id ob' = obs_id ob \<and> obs_size ob' = obs_size ob \<and>
        vx (obs_position ob') = min (max (vx (obs_position ob)) 0) (W - vx (obs_size ob)) \<and>
        vy (obs_position ob') = min (max (vy (obs_position ob)) 0) (H - vy (obs_size ob)) \<and>
        vx (obs_position ob') < W \<and> vy (obs_position ob') < H \<and>
        (vx (obs_size ob') \<le> W \<longrightarrow>
           0 \<le> vx (obs_position ob') \<and> vx (obs_position ob') + vx (obs_size ob') \<le> W) \<and>
        (vy (obs_size ob') \<le> H \<longrightarrow>
           0 \<le> vy (obs_position ob') \<and> vy (obs_position ob') + vy (obs_size ob') \<le> H)"
    if "ob' \<in> set (obstacles s')" for ob'
  proof -
    from that have lt: "vx (obs_position ob') < W" "vy (obs_position ob') < H"
      and "ob' \<in> f ` set (obstacles prev)"
      unfolding obs by simp_all
    then obtain ob where ob: "ob \<in> set (obstacles prev)" and eq: "ob' = f ob" by blast
    have i: "obs_id ob' = obs_id ob" and sz: "obs_size ob' = obs_size ob"
      and px: "vx (obs_position ob') = min (max (vx (obs_position ob)) 0) (W - vx (obs_size ob))"
      and py: "vy (obs_position ob') = min (max (vy (obs_position ob)) 0) (H - vy (obs_size ob))"
      by (simp_all add: eq f_def)
    have ix: "vx (obs_size ob') \<le> W \<longrightarrow>
           0 \<le> vx (obs_position ob') \<and> vx (obs_position ob') + vx (obs_size ob') \<le> W"
      unfolding px sz using clamp_inside by blast
    have iy: "vy (obs_size ob') \<le> H \<longrightarrow>
           0 \<le> vy (obs_position ob') \<and> vy (obs_position ob') + vy (obs_size ob') \<le> H"
      unfolding py sz using clamp_inside by blast
    show ?thesis
      by (rule bexI[OF _ ob]) (intro conjI i sz px py lt ix iy)
  qed
  moreover have "boardSize (simulation s') = \<lparr>width = W, height = H\<rparr>"
    by (simp add: s' resizeBoard_size W H)
  ultimately show ?thesis by blast
qed

text \<open>The theorem at the initial world resized to 300 x 400, for its first obstacle.\<close>

theorem resized_obstacles_are_clamped_witness:
  "hd (obstacles (resizeBoard 1 \<lparr>width = 300, height = 400\<rparr> world0))
     \<in> set (obstacles (resizeBoard 1 \<lparr>width = 300, height = 400\<rparr> world0)) \<and>
   vx (obs_size (hd (obstacles (resizeBoard 1 \<lparr>width = 300, height = 400\<rparr> world0)))) \<le> 300 \<and>
   0 \<le> vx (obs_position (hd (obstacles (resizeBoard 1 \<lparr>width = 300, height = 400\<rparr> world0)))) \<and>
   vx (obs_position (hd (obstacles (resizeBoard 1 \<lparr>width = 300, height = 400\<rparr> world0)))) +
     vx (obs_size (hd (obstacles (resizeBoard 1 \<lparr>width = 300, height = 400\<rparr> world0)))) \<le> 300"
proof -
  define s' where "s' = resizeBoard 1 \<lparr>width = 300, height = 400\<rparr> world0"
  have W: "(300::real) = max 100 (width \<lparr>width = 300, height = 400\<rparr>)"
    and H: "(400::real) = max 100 (height \<lparr>width = 300, height = 400\<rparr>)" by simp_all
  have m: "hd (obstacles s') \<in> set (obstacles s')"
    by (simp add: s'_def world0_resized_300_400)
  have fits: "vx (obs_size (hd (obstacles s'))) \<le> 300"
    by (simp add: s'_def world0_resized_300_400)
  from resized_obstacles_are_clamped[OF s'_def W H] m
  have "vx (obs_size (hd (obstacles s'))) \<le> 300 \<longrightarrow>
           0 \<le> vx (obs_position (hd (obstacles s'))) \<and>
           vx (obs_position (hd (obstacles s'))) + vx (obs_size (hd (obstacles s'))) \<le> 300"
    by blast
  with fits m show ?thesis unfolding s'_def by blast
qed

text \<open>
  Claim C9 as stated fails when the initial world is resized to 100 x 100: the obstacle at
  (300, 300), which lies entirely outside the new board, stays in the list, and both
  obstacles, longer than the new board, end with a negative coordinate.
\<close>

theorem resize_keeps_oversized_obstacle_counterexample:
  "map obs_position (obstacles world0) = [\<lparr>vx = 100, vy = 100\<rparr>, \<lparr>vx = 300, vy = 300\<rparr>] \<and>
   boardSize (simulation (resizeBoard 1 \<lparr>width = 100, height = 100\<rparr> world0)) =
     \<lparr>width = 100, height = 100\<rparr> \<and>
   obstacles (resizeBoard 1 \<lparr>width = 100, height = 100\<rparr> world0) =
     [\<lparr>obs_id = generateId ''obstacle'' 3, obs_position = \<lparr>vx = 90, vy = -50\<rparr>,
       obs_size = \<lparr>vx = 10, vy = 150\<rparr>\<rparr>,
      \<lparr>obs_id = generateId ''obstacle'' 4, obs_position = \<lparr>vx = -50, vy = 90\<rparr>,
       obs_size = \<lparr>vx = 150, vy = 10\<rparr>\<rparr>]"
  by (simp add: world0_resized_100 resizeBoard_size world0_obstacles)

section \<open>Perception and obstacles\<close>

text \<open>
  Claim C10. The entries the snapshot builder reports for avatars and for objects (which ones
  are visible, and their rounded distances) are the same for any two obstacle lists: the
  line-of-sight loop over the obstacles never blocks a sight line.
\<close>

theorem perception_independent_of_obstacles:
  "visibleAvatars (getSensoryInput avatar allAvatars objectList obstacleList1 bs) =
     visibleAvatars (getSensoryInput avatar allAvatars objectList obstacleList2 bs) \<and>
   visibleObjects (getSensoryInput avatar allAvatars objectList obstacleList1 bs) =
     visibleObjects (getSensoryInput avatar allAvatars objectList obstacleList2 bs)"
  by (simp add: getSensoryInput_def isVisible_obstacles[of avatar obstacleList1 _ obstacleList2])

section \<open>The visibility test\<close>



section \<open>The avatar floor\<close>

text \<open>
  Claim C2, as the code has it. Every reachable world has at least two avatars; the initial
  world has exactly two; and \<^verbatim>\<open>removeAvatar\<close> on a world with at most two avatars leaves the
  avatars, objects, obstacles, conversations, simulation settings and running flag as they
  are and appends one warning to the event log.
\<close>

theorem avatar_floor:
  "(reachable s c \<longrightarrow> 2 \<le> length (avatars s)) \<and>
   length (avatars (fst (createInitialState now0 c0))) = 2 \<and>
   (length (avatars s) \<le> 2 \<longrightarrow>
      avatars (removeAvatar now rid s) = avatars s \<and>
      objects (removeAvatar now rid s) = objects s \<and>
      obstacles (removeAvatar now rid s) = obstacles s \<and>
      conversations (removeAvatar now rid s) = conversations s \<and>
      simulation (removeAvatar now rid s) = simulation s \<and>
      isRunning (removeAvatar now rid s) = isRunning s \<and>
      simulationLogs (removeAvatar now rid s) =
        slice_last 100 (simulationLogs s) @ [removalRejected now rid])"
proof -
  have a: "reachable s c \<longrightarrow> 2 \<le> length (avatars s)"
    using reachable_countInv[of s c] by (simp add: countInv_def)
  have b: "length (avatars (fst (createInitialState now0 c0))) = 2"
    by (simp add: createInitialState_def)
  show ?thesis using a b by (simp add: removeAvatar_rejected)
qed

text \<open>The theorem at the initial world, which is reachable and has two avatars.\<close>

theorem avatar_floor_witness:
  "reachable world0 5 \<and> 2 \<le> length (avatars world0) \<and> length (avatars world0) \<le> 2 \<and>
   avatars (removeAvatar 1 (generateId ''avatar'' 0) world0) = avatars world0 \<and>
   conversations (removeAvatar 1 (generateId ''avatar'' 0) world0) = conversations world0 \<and>
   simulationLogs (removeAvatar 1 (generateId ''avatar'' 0) world0) =
     slice_last 100 (simulationLogs world0) @ [removalRejected 1 (generateId ''avatar'' 0)]"
  using avatar_floor[of world0 5 1 0 1 "generateId ''avatar'' 0"] world0_reachable world0_two
  by simp

text \<open>
  Claim C2 as stated fails in its last part: the rejected removal does not leave the world
  snapshot completely unchanged, its event log has one more entry.
\<close>

theorem rejected_removal_logs_counterexample:
  "length (avatars world0) = 2 \<and>
   length (simulationLogs world0) = 1 \<and>
   length (simulationLogs (removeAvatar 1 (generateId ''avatar'' 0) world0)) = 2 \<and>
   removeAvatar 1 (generateId ''avatar'' 0) world0 \<noteq> world0"
proof -
  have l: "length (simulationLogs (removeAvatar 1 (generateId ''avatar'' 0) world0)) = 2"
    by (simp add: removeAvatar_rejected world0_two world0_logs slice_last_def)
  then have "removeAvatar 1 (generateId ''avatar'' 0) world0 \<noteq> world0"
    using world0_logs by auto
  then show ?thesis using l world0_two world0_logs by simp
qed

end
